theory Spec2Isabelle
  imports Complex_Main
begin

section \<open>Python values used by the converter\<close>

text \<open>
  Exceptions are values. \<open>AttributeError\<close> carries the name of the attribute
  that is absent, \<open>ValueError\<close> and \<open>NotImplementedError\<close> carry their message.
  \<open>IncompatibleShape\<close> stands for the error Keras raises when a functional model
  is called with an input whose width is not the declared one, \<open>OSError\<close> for
  a loader that finds no artifact, \<open>MalformedTree\<close> for an inference run that
  reaches a child which is not there, and \<open>DisconnectedOutputs\<close> for the
  \<^verbatim>\<open>ValueError\<close> with which \<^verbatim>\<open>tf.keras.Model\<close> refuses outputs that are
  not computed from its inputs.
\<close>

datatype py_error =
    AttributeError string
  | IndexError
  | ValueError string
  | NotImplementedError string
  | IncompatibleShape
  | OSError
  | MalformedTree
  | DisconnectedOutputs

text \<open>
  \<^verbatim>\<open>xs[i]\<close> on a Python list: indices from \<open>-len\<close> to \<open>len - 1\<close> are
  accepted, the negative ones counting from the end; everything else raises.
\<close>

definition py_getitem :: "'a list \<Rightarrow> int \<Rightarrow> py_error + 'a" where
  "py_getitem xs i =
     (if 0 \<le> i \<and> i < int (length xs) then Inr (xs ! nat i)
      else if i < 0 \<and> - int (length xs) \<le> i then Inr (xs ! nat (i + int (length xs)))
      else Inl IndexError)"

text \<open>
  \<^verbatim>\<open>str\<close> of an integer (its decimal digits, with a minus sign), and the decimal
  fragment of \<^verbatim>\<open>int\<close> on a string: an optional sign followed by at least one
  ASCII digit. (Python's \<^verbatim>\<open>int\<close> also accepts surrounding white space and
  single underscores between digits; \<^verbatim>\<open>str\<close> never produces either.)
\<close>

definition digit_char :: "nat \<Rightarrow> char" where
  "digit_char d = ''0123456789'' ! d"

fun str_nat :: "nat \<Rightarrow> string" where
  "str_nat n = (if n < 10 then [digit_char n] else str_nat (n div 10) @ [digit_char (n mod 10)])"

declare str_nat.simps [simp del]

definition str_int :: "int \<Rightarrow> string" where
  "str_int i = (if i < 0 then CHR ''-'' # str_nat (nat (- i)) else str_nat (nat i))"

definition digit_val :: "char \<Rightarrow> nat option" where
  "digit_val c =
     (let k = (of_char c :: nat) in if 48 \<le> k \<and> k \<le> 57 then Some (k - 48) else None)"

fun int_digits :: "nat \<Rightarrow> string \<Rightarrow> nat option" where
  "int_digits acc [] = Some acc"
| "int_digits acc (c # cs) =
     (case digit_val c of None \<Rightarrow> None | Some d \<Rightarrow> int_digits (10 * acc + d) cs)"

definition invalid_literal :: "string \<Rightarrow> py_error" where
  "invalid_literal s = ValueError (''invalid literal for int() with base 10: '' @ s)"

definition py_int :: "string \<Rightarrow> py_error + int" where
  "py_int s =
     (let signed = (s \<noteq> [] \<and> (hd s = CHR ''-'' \<or> hd s = CHR ''+''));
          ds = (if signed then tl s else s)
      in if ds = [] then Inl (invalid_literal s)
         else case int_digits 0 ds of
           None \<Rightarrow> Inl (invalid_literal s)
         | Some n \<Rightarrow> Inr (if signed \<and> hd s = CHR ''-'' then - int n else int n))"

text \<open>
  A float as numpy computes it, as far as the converter can tell the cases apart: a
  finite number (kept exact, as a rational), or one of the three values a division by
  zero produces. numpy does not raise on a division by zero.
\<close>

datatype np_float = Finite rat | PosInf | NegInf | NaN

definition np_divide :: "rat \<Rightarrow> rat \<Rightarrow> np_float" where
  "np_divide a b =
     (if b \<noteq> 0 then Finite (a / b)
      else if 0 < a then PosInf
      else if a < 0 then NegInf
      else NaN)"


section \<open>The scikit-learn side: estimators and their flat trees\<close>

text \<open>
  One row of the \<^verbatim>\<open>nodes\<close> array of a fitted tree. The array has further
  columns (impurity, sample counts) that the converter copies and never reads.
\<close>

record sk_node =
  left_child :: int
  right_child :: int
  feature :: int
  threshold :: rat

text \<open>
  \<^verbatim>\<open>tree_.__getstate__()\<close>: the node array and the parallel array of values,
  one matrix (outputs by classes) per node.
\<close>

record tree_state =
  state_nodes :: "sk_node list"
  state_values :: "rat list list list"

datatype py_label = IntLabel int | StrLabel string

fun str_label :: "py_label \<Rightarrow> string" where
  "str_label (IntLabel i) = str_int i"
| "str_label (StrLabel s) = s"

text \<open>
  An estimator object. \<open>model_type\<close> is the qualified name of its class and
  \<open>model_bases\<close> the rest of the method resolution order of that class (its
  ancestors, nearest first). The attributes that
  scikit-learn sets when a model is fit (\<^verbatim>\<open>tree_\<close>, \<^verbatim>\<open>n_outputs_\<close>,
  \<^verbatim>\<open>n_classes_\<close>, \<^verbatim>\<open>classes_\<close>, \<^verbatim>\<open>n_features_in_\<close>) are optional:
  \<open>None\<close> is an attribute the object does not have.
\<close>

record sklearn_model =
  model_type :: string
  model_bases :: "string list"
  tree_attr :: "tree_state option"
  n_outputs :: "int option"
  n_classes :: "int list option"
  classes :: "py_label list option"
  n_features_in :: "nat option"

datatype TaskType = UNKNOWN | SCALAR_REGRESSION | SINGLE_LABEL_CLASSIFICATION


section \<open>The TFDF side: values, conditions and nodes of a py\_tree\<close>

text \<open>
  Modelled from the spec: the classes of \<^verbatim>\<open>py_tree\<close> (values, column
  specifications, conditions, nodes, trees) are not among the sources. A leaf holds a
  regression scalar or a probability vector; a decision node holds a condition and a
  positive and a negative child. The value classes are built with their default
  \<^verbatim>\<open>num_examples\<close>, which is left out. In the test \<^verbatim>\<open>if pos_child\<close> a
  subtree that exists is true and only \<^verbatim>\<open>None\<close> is false.
\<close>

datatype py_value = RegressionValue rat | ProbabilityValue "np_float list"

datatype column_type = NUMERICAL

record column_spec =
  name :: string
  col_type :: column_type
  col_idx :: int

datatype condition =
  NumericalHigherThanCondition
    (cond_feature: column_spec) (cond_threshold: rat) (missing_evaluation: bool)

datatype tfdf_node =
    NonLeafNode (condition: condition)
                (pos_child: "tfdf_node option") (neg_child: "tfdf_node option")
  | LeafNode (leaf_value: py_value)

datatype tree = Tree (root: "tfdf_node option")

text \<open>
  The dictionary the converter builds for each node: the columns of the node array
  and, under the key \<^verbatim>\<open>value\<close>, the value object made for the node.
\<close>

record node = sk_node +
  node_value :: py_value


section \<open>The tree translator\<close>

text \<open>
  Both tests of \<^verbatim>\<open>_get_sklearn_tree_task_type\<close> read \<^verbatim>\<open>n_outputs_\<close>, and
  whichever comes first raises when the attribute is not there; \<^verbatim>\<open>hasattr\<close>
  never raises.
\<close>

definition get_sklearn_tree_task_type :: "sklearn_model \<Rightarrow> py_error + TaskType" where
  "get_sklearn_tree_task_type sklearn_tree =
     (case n_outputs sklearn_tree of
        None \<Rightarrow> Inl (AttributeError ''n_outputs_'')
      | Some k \<Rightarrow>
          if n_classes sklearn_tree \<noteq> None \<and> k = 1 then Inr SINGLE_LABEL_CLASSIFICATION
          else if k = 1 then Inr SCALAR_REGRESSION
          else Inr UNKNOWN)"

text \<open>
  The recursion over child indices. Nothing in the source bounds it (the
  interpreter's own recursion limit is not part of the model), so it is a partial
  function: \<open>None\<close> is a run that does not return, \<open>Some (Inl e)\<close> a raised
  exception, \<open>Some (Inr None)\<close> the Python \<^verbatim>\<open>None\<close>.
\<close>

partial_function (option) convert_sklearn_node_to_tfdf_node ::
  "int \<Rightarrow> node list \<Rightarrow> (py_error + tfdf_node option) option" where
  "convert_sklearn_node_to_tfdf_node node_index nodes =
     (if node_index = - 1 then Some (Inr None)
      else case py_getitem nodes node_index of
        Inl e \<Rightarrow> Some (Inl e)
      | Inr node \<Rightarrow>
          Option.bind (convert_sklearn_node_to_tfdf_node (left_child node) nodes) (\<lambda>r1.
            case r1 of
              Inl e \<Rightarrow> Some (Inl e)
            | Inr neg \<Rightarrow>
                Option.bind (convert_sklearn_node_to_tfdf_node (right_child node) nodes) (\<lambda>r2.
                  case r2 of
                    Inl e \<Rightarrow> Some (Inl e)
                  | Inr pos \<Rightarrow>
                      Some (Inr (Some
                        (if pos \<noteq> None then
                           NonLeafNode
                             (NumericalHigherThanCondition
                                \<lparr>name = str_int (feature node), col_type = NUMERICAL,
                                 col_idx = feature node\<rparr>
                                (threshold node) False)
                             pos neg
                         else LeafNode (node_value node)))))))"

declare convert_sklearn_node_to_tfdf_node.simps [code]

text \<open>The value object of one node, from its matrix of target statistics.\<close>

definition make_value :: "TaskType \<Rightarrow> rat list list \<Rightarrow> py_error + py_value" where
  "make_value task_type target_value =
     (case task_type of
        SCALAR_REGRESSION \<Rightarrow>
          (case py_getitem target_value 0 of
             Inl e \<Rightarrow> Inl e
           | Inr row \<Rightarrow>
               (case py_getitem row 0 of Inl e \<Rightarrow> Inl e | Inr v \<Rightarrow> Inr (RegressionValue v)))
      | SINGLE_LABEL_CLASSIFICATION \<Rightarrow>
          (case py_getitem target_value 0 of
             Inl e \<Rightarrow> Inl e
           | Inr row \<Rightarrow> Inr (ProbabilityValue (map (\<lambda>c. np_divide c (sum_list row)) row)))
      | UNKNOWN \<Rightarrow>
          Inl (ValueError
            ''Only scalar regression and single-label classification are supported.''))"

text \<open>The loop over the zipped node and value arrays; it stops at the first raise.\<close>

fun make_nodes :: "TaskType \<Rightarrow> (sk_node \<times> rat list list) list \<Rightarrow> py_error + node list" where
  "make_nodes task_type [] = Inr []"
| "make_nodes task_type ((node_properties, target_value) # rest) =
     (case make_value task_type target_value of
        Inl e \<Rightarrow> Inl e
      | Inr v \<Rightarrow>
          (case make_nodes task_type rest of
             Inl e \<Rightarrow> Inl e
           | Inr nodes \<Rightarrow> Inr (sk_node.extend node_properties (node.fields v) # nodes)))"

definition convert_sklearn_tree_to_tfdf_pytree :: "sklearn_model \<Rightarrow> (py_error + tree) option" where
  "convert_sklearn_tree_to_tfdf_pytree sklearn_tree =
     (case tree_attr sklearn_tree of
        None \<Rightarrow> Some (Inl (ValueError
                  ''Scikit-Learn model must be fit to data before converting.''))
      | Some sklearn_tree_data \<Rightarrow>
          (case get_sklearn_tree_task_type sklearn_tree of
             Inl e \<Rightarrow> Some (Inl e)
           | Inr task_type \<Rightarrow>
               (case make_nodes task_type
                       (zip (state_nodes sklearn_tree_data) (state_values sklearn_tree_data)) of
                  Inl e \<Rightarrow> Some (Inl e)
                | Inr nodes \<Rightarrow>
                    map_option (map_sum id Tree) (convert_sklearn_node_to_tfdf_node 0 nodes))))"


section \<open>The collaborators: objective, builder, loader, loaded model\<close>

datatype objective =
    RegressionObjective string
  | ClassificationObjective string "string list"

text \<open>
  Modelled from the spec: the model artifact of the target builder, which is not among
  the sources. The builder takes an objective and a directory, has one tree appended
  (a single-tree ensemble) and on finalize persists the model in that directory; the
  loader turns the persisted model into a live model. A file system maps the path of
  a directory to what the directory holds: no model yet, or a persisted model.
\<close>

datatype tfdf_model = TFDFModel (model_objective: objective) (model_tree: tree)

datatype directory = Directory (stored: "tfdf_model option")

type_synonym path = string

type_synonym filesystem = "path \<rightharpoonup> directory"

text \<open>
  Modelled from the spec: the builder's finalize step (\<^verbatim>\<open>CARTBuilder\<close>,
  \<^verbatim>\<open>add_tree\<close>, \<^verbatim>\<open>close\<close>), which persists the objective and the single
  tree in the directory at the given path.
\<close>

definition cart_builder_close :: "path \<Rightarrow> objective \<Rightarrow> tree \<Rightarrow> filesystem \<Rightarrow> filesystem" where
  "cart_builder_close p obj pytree fs = fs(p \<mapsto> Directory (Some (TFDFModel obj pytree)))"

text \<open>
  Modelled from the spec: the loader (\<^verbatim>\<open>load_model\<close>), which returns the model
  persisted at a path as a live model.
\<close>

definition load_model :: "path \<Rightarrow> filesystem \<Rightarrow> py_error + tfdf_model" where
  "load_model p fs =
     (case fs p of
        Some (Directory (Some m)) \<Rightarrow> Inr m
      | _ \<Rightarrow> Inl OSError)"

text \<open>
  Modelled from the spec: the serving signature of a loaded model, which names the
  feature columns that appear in at least one split condition, and no others.
\<close>

fun used_features :: "tfdf_node \<Rightarrow> string list" where
  "used_features (LeafNode v) = []"
| "used_features (NonLeafNode c pos neg) =
     name (cond_feature c)
       # (case pos of None \<Rightarrow> [] | Some p \<Rightarrow> used_features p)
       @ (case neg of None \<Rightarrow> [] | Some n \<Rightarrow> used_features n)"

definition serving_signature :: "tfdf_model \<Rightarrow> string list" where
  "serving_signature m =
     (case root (model_tree m) of None \<Rightarrow> [] | Some r \<Rightarrow> remdups (used_features r))"

text \<open>
  Modelled from the spec: inference in the target runtime, which is not among the
  sources. A decision node sends an example to its positive child when the value of
  the node's feature is strictly greater than the threshold and to the negative
  child otherwise; a feature with no value in the example is missing and follows the
  node's \<open>missing_evaluation\<close>. The leaf that is reached gives the output. Examples
  are dictionaries from feature names to values.
\<close>

fun route :: "(string \<rightharpoonup> rat) \<Rightarrow> tfdf_node \<Rightarrow> py_error + py_value" where
  "route example (LeafNode v) = Inr v"
| "route example (NonLeafNode c pos neg) =
     (if (case example (name (cond_feature c)) of
            None \<Rightarrow> missing_evaluation c
          | Some v \<Rightarrow> cond_threshold c < v)
      then (case pos of None \<Rightarrow> Inl MalformedTree | Some p \<Rightarrow> route example p)
      else (case neg of None \<Rightarrow> Inl MalformedTree | Some n \<Rightarrow> route example n))"

definition tfdf_call :: "tfdf_model \<Rightarrow> (string \<rightharpoonup> rat) \<Rightarrow> py_error + py_value" where
  "tfdf_call m example =
     (case root (model_tree m) of None \<Rightarrow> Inl MalformedTree | Some r \<Rightarrow> route example r)"


section \<open>Model assembly and the public entry point\<close>

definition regression_classes :: "string list" where
  "regression_classes =
     [''sklearn.tree._classes.DecisionTreeRegressor'',
      ''sklearn.tree._classes.ExtraTreeRegressor'']"

definition classification_classes :: "string list" where
  "classification_classes =
     [''sklearn.tree._classes.DecisionTreeClassifier'',
      ''sklearn.tree._classes.ExtraTreeClassifier'']"

text \<open>
  \<^verbatim>\<open>functools.singledispatch\<close>: the implementation registered for the first class
  in the method resolution order of the argument's class that has one; with none,
  the undecorated function.
\<close>

definition dispatch_class :: "sklearn_model \<Rightarrow> string option" where
  "dispatch_class m =
     find (\<lambda>c. c \<in> set (regression_classes @ classification_classes))
          (model_type m # model_bases m)"

definition type_repr :: "sklearn_model \<Rightarrow> string" where
  "type_repr m = ''<class '' @ [CHR 0x27] @ model_type m @ [CHR 0x27] @ ''>''"

definition build_regression ::
  "sklearn_model \<Rightarrow> path \<Rightarrow> filesystem \<Rightarrow> ((py_error + tfdf_model) \<times> filesystem) option" where
  "build_regression sklearn_model p fs =
     (case convert_sklearn_tree_to_tfdf_pytree sklearn_model of
        None \<Rightarrow> None
      | Some (Inl e) \<Rightarrow> Some (Inl e, fs)
      | Some (Inr pytree) \<Rightarrow>
          (let fs' = cart_builder_close p (RegressionObjective ''label'') pytree fs
           in Some (load_model p fs', fs')))"

definition build_classification ::
  "sklearn_model \<Rightarrow> path \<Rightarrow> filesystem \<Rightarrow> ((py_error + tfdf_model) \<times> filesystem) option" where
  "build_classification sklearn_model p fs =
     (case classes sklearn_model of
        None \<Rightarrow> Some (Inl (AttributeError ''classes_''), fs)
      | Some cs \<Rightarrow>
          (case convert_sklearn_tree_to_tfdf_pytree sklearn_model of
             None \<Rightarrow> None
           | Some (Inl e) \<Rightarrow> Some (Inl e, fs)
           | Some (Inr pytree) \<Rightarrow>
               (let fs' = cart_builder_close p
                            (ClassificationObjective ''label'' (map str_label cs)) pytree fs
                in Some (load_model p fs', fs'))))"

definition build_tfdf_model ::
  "sklearn_model \<Rightarrow> path \<Rightarrow> filesystem \<Rightarrow> ((py_error + tfdf_model) \<times> filesystem) option" where
  "build_tfdf_model sklearn_model p fs =
     (case dispatch_class sklearn_model of
        None \<Rightarrow>
          Some (Inl (NotImplementedError
                  (''Can't build a TFDF model for '' @ type_repr sklearn_model)), fs)
      | Some c \<Rightarrow>
          if c \<in> set regression_classes then build_regression sklearn_model p fs
          else build_classification sklearn_model p fs)"

text \<open>
  The model that \<^verbatim>\<open>convert\<close> returns: one input of the declared width, and for
  every identifier of the inner model's signature the column it is fed from.
\<close>

datatype keras_model =
  KerasModel (input_width: nat) (sliced_columns: "(string \<times> int) list") (inner_model: tfdf_model)

text \<open>
  The dictionary comprehension of \<^verbatim>\<open>convert\<close>: each identifier is parsed with
  \<^verbatim>\<open>int\<close> and the column of that index is sliced out of the template input. A
  slice index outside the width of the template is rejected when the model is built.
\<close>

fun slice_columns :: "nat \<Rightarrow> string list \<Rightarrow> py_error + (string \<times> int) list" where
  "slice_columns n [] = Inr []"
| "slice_columns n (i # feature_indices) =
     (case py_int i of
        Inl e \<Rightarrow> Inl e
      | Inr j \<Rightarrow>
          if \<not> (- int n \<le> j \<and> j < int n) then Inl IndexError
          else (case slice_columns n feature_indices of
                  Inl e \<Rightarrow> Inl e
                | Inr cols \<Rightarrow> Inr ((i, j) # cols)))"

text \<open>
  \<^verbatim>\<open>convert\<close>, with the file system passed through. \<open>tmp\<close> is the name that
  \<^verbatim>\<open>tempfile.TemporaryDirectory\<close> picks when it is asked for a directory; leaving
  the \<^verbatim>\<open>with\<close> block removes that directory with all it holds, also when the
  block is left by an exception. A path that is \<^verbatim>\<open>None\<close> or the empty string is
  false in the first test. The last line builds the returned model from the template
  input and the inner model's output on the sliced columns; when the signature names
  no column (a tree that is a single leaf), nothing is sliced, that output does not
  come from the template input, and \<^verbatim>\<open>tf.keras.Model\<close> raises.
\<close>

definition convert ::
  "sklearn_model \<Rightarrow> path option \<Rightarrow> path \<Rightarrow> filesystem
     \<Rightarrow> ((py_error + keras_model) \<times> filesystem) option" where
  "convert sklearn_model intermediate_write_path tmp fs =
     (let (temporary, p) =
            (case intermediate_write_path of
               None \<Rightarrow> (True, tmp)
             | Some q \<Rightarrow> if q = [] then (True, tmp) else (False, q));
          fs1 = (if temporary then fs(tmp \<mapsto> Directory None) else fs)
      in case build_tfdf_model sklearn_model p fs1 of
           None \<Rightarrow> None
         | Some (r, fs2) \<Rightarrow>
             (let fs3 = (if temporary then fs2(tmp := None) else fs2)
              in Some
                   (case r of
                      Inl e \<Rightarrow> Inl e
                    | Inr tfdf_model \<Rightarrow>
                        (case n_features_in sklearn_model of
                           None \<Rightarrow> Inl (AttributeError ''n_features_in_'')
                         | Some n \<Rightarrow>
                             (case slice_columns n (serving_signature tfdf_model) of
                                Inl e \<Rightarrow> Inl e
                              | Inr cols \<Rightarrow>
                                  if cols = [] then Inl DisconnectedOutputs
                                  else Inr (KerasModel n cols tfdf_model))),
                    fs3)))"

text \<open>
  Calling the returned model on one row of a design matrix: the row must have the
  declared width; the inner model is fed, for each identifier, the sliced column.
\<close>

fun feed :: "rat list \<Rightarrow> (string \<times> int) list \<Rightarrow> py_error + (string \<times> rat) list" where
  "feed row [] = Inr []"
| "feed row ((i, j) # cols) =
     (case py_getitem row j of
        Inl e \<Rightarrow> Inl e
      | Inr v \<Rightarrow> (case feed row cols of Inl e \<Rightarrow> Inl e | Inr kvs \<Rightarrow> Inr ((i, v) # kvs)))"

definition keras_call :: "keras_model \<Rightarrow> rat list \<Rightarrow> py_error + py_value" where
  "keras_call km row =
     (if length row \<noteq> input_width km then Inl IncompatibleShape
      else case feed row (sliced_columns km) of
             Inl e \<Rightarrow> Inl e
           | Inr kvs \<Rightarrow> tfdf_call (inner_model km) (map_of kvs))"


section \<open>Prediction by the source estimator, as the specification words it\<close>

text \<open>
  Flat-array routing: from a node that has a left child, go to \<open>left_child\<close> when
  the feature value is not greater than the threshold and to \<open>right_child\<close>
  otherwise; a node without a left child is the leaf that is reached.
\<close>

partial_function (option) sklearn_apply ::
  "sk_node list \<Rightarrow> rat list \<Rightarrow> int \<Rightarrow> (py_error + int) option" where
  "sklearn_apply nodes x i =
     (case py_getitem nodes i of
        Inl e \<Rightarrow> Some (Inl e)
      | Inr nd \<Rightarrow>
          if left_child nd = - 1 then Some (Inr i)
          else case py_getitem x (feature nd) of
            Inl e \<Rightarrow> Some (Inl e)
          | Inr v \<Rightarrow>
              if \<not> threshold nd < v then sklearn_apply nodes x (left_child nd)
              else sklearn_apply nodes x (right_child nd))"

declare sklearn_apply.simps [code]

text \<open>
  The prediction of the source estimator is the value of the leaf reached from the
  root: for a regression tree the scalar stored for the leaf, for a classification
  tree the leaf's per-class counts divided by their sum.
\<close>

definition sklearn_leaf_value :: "bool \<Rightarrow> rat list list \<Rightarrow> py_error + py_value" where
  "sklearn_leaf_value classifier target_value =
     (case py_getitem target_value 0 of
        Inl e \<Rightarrow> Inl e
      | Inr row \<Rightarrow>
          if classifier then Inr (ProbabilityValue (map (\<lambda>c. Finite (c / sum_list row)) row))
          else (case py_getitem row 0 of Inl e \<Rightarrow> Inl e | Inr v \<Rightarrow> Inr (RegressionValue v)))"

definition sklearn_predict :: "sklearn_model \<Rightarrow> rat list \<Rightarrow> (py_error + py_value) option" where
  "sklearn_predict m x =
     (case tree_attr m of
        None \<Rightarrow> Some (Inl (AttributeError ''tree_''))
      | Some st \<Rightarrow>
          (case sklearn_apply (state_nodes st) x 0 of
             None \<Rightarrow> None
           | Some (Inl e) \<Rightarrow> Some (Inl e)
           | Some (Inr leaf) \<Rightarrow>
               Some (case py_getitem (state_values st) leaf of
                       Inl e \<Rightarrow> Inl e
                     | Inr target_value \<Rightarrow>
                         sklearn_leaf_value (n_classes m \<noteq> None) target_value)))"


section \<open>Well-formed flat trees and fitted estimators\<close>

definition valid_index :: "'a list \<Rightarrow> int \<Rightarrow> bool" where
  "valid_index nodes i \<longleftrightarrow> 0 \<le> i \<and> i < int (length nodes)"

definition child_index_ok :: "'a list \<Rightarrow> int \<Rightarrow> bool" where
  "child_index_ok nodes c \<longleftrightarrow> c = - 1 \<or> valid_index nodes c"

text \<open>The pairs (child, parent) of a node array, the sentinel left out.\<close>

definition child_rel :: "'a sk_node_scheme list \<Rightarrow> (int \<times> int) set" where
  "child_rel nodes =
     {(c, p). valid_index nodes p \<and> c \<noteq> - 1 \<and>
              (c = left_child (nodes ! nat p) \<or> c = right_child (nodes ! nat p))}"

text \<open>
  The child indices describe a tree: each is the sentinel or a valid index, and no
  node is its own ancestor.
\<close>

definition is_tree :: "'a sk_node_scheme list \<Rightarrow> bool" where
  "is_tree nodes \<longleftrightarrow>
     (\<forall>nd \<in> set nodes.
         child_index_ok nodes (left_child nd) \<and> child_index_ok nodes (right_child nd))
     \<and> (\<forall>i. (i, i) \<notin> (child_rel nodes)\<^sup>+)"

text \<open>
  The state of a fitted tree over \<open>n\<close> features: a root, one value matrix per node,
  child indices that describe a tree, both children absent together, split features
  that are columns of the input, value matrices with an entry and, for a classifier,
  counts that are not negative and have a positive sum.
\<close>

definition fitted_tree_state :: "nat \<Rightarrow> bool \<Rightarrow> tree_state \<Rightarrow> bool" where
  "fitted_tree_state n classifier st \<longleftrightarrow>
     state_nodes st \<noteq> []
     \<and> length (state_values st) = length (state_nodes st)
     \<and> is_tree (state_nodes st)
     \<and> (\<forall>nd \<in> set (state_nodes st).
           (left_child nd = - 1 \<longleftrightarrow> right_child nd = - 1)
           \<and> (left_child nd \<noteq> - 1 \<longrightarrow> 0 \<le> feature nd \<and> feature nd < int n))
     \<and> (\<forall>tv \<in> set (state_values st).
           tv \<noteq> [] \<and> hd tv \<noteq> []
           \<and> (classifier \<longrightarrow> (\<forall>c \<in> set (hd tv). 0 \<le> c) \<and> 0 < sum_list (hd tv)))"

text \<open>
  A fitted single-output estimator of a supported class: a regression tree without
  a number-of-classes attribute, or a classification tree with that attribute and
  its class labels.
\<close>

definition fitted_estimator :: "sklearn_model \<Rightarrow> bool" where
  "fitted_estimator m \<longleftrightarrow>
     n_outputs m = Some 1
     \<and> (case (tree_attr m, n_features_in m) of
          (Some st, Some n) \<Rightarrow> fitted_tree_state n (n_classes m \<noteq> None) st
        | _ \<Rightarrow> False)
     \<and> (case dispatch_class m of
          None \<Rightarrow> False
        | Some c \<Rightarrow>
            if c \<in> set regression_classes then n_classes m = None
            else n_classes m \<noteq> None \<and> classes m \<noteq> None)"


text \<open>The root of the estimator's tree is a split: the tree is more than one leaf.\<close>

definition root_is_split :: "sklearn_model \<Rightarrow> bool" where
  "root_is_split m =
     (case tree_attr m of
        None \<Rightarrow> False
      | Some st \<Rightarrow>
          (case state_nodes st of [] \<Rightarrow> False | nd # nds \<Rightarrow> left_child nd \<noteq> - 1))"




section \<open>Example inputs\<close>

text \<open>
  A tree of five nodes over five features, of which only features 0 and 2 are used:
  the root splits on feature 0 at 1/2, its right child on feature 2 at 3/2. First as
  the converter's list of node dictionaries, with regression values.
\<close>

definition example_nodes :: "node list" where
  "example_nodes =
     [\<lparr>left_child = 1, right_child = 2, feature = 0, threshold = 1 / 2,
       node_value = RegressionValue (3 / 2)\<rparr>,
      \<lparr>left_child = - 1, right_child = - 1, feature = - 2, threshold = - 2,
       node_value = RegressionValue 1\<rparr>,
      \<lparr>left_child = 3, right_child = 4, feature = 2, threshold = 3 / 2,
       node_value = RegressionValue 2\<rparr>,
      \<lparr>left_child = - 1, right_child = - 1, feature = - 2, threshold = - 2,
       node_value = RegressionValue (7 / 4)\<rparr>,
      \<lparr>left_child = - 1, right_child = - 1, feature = - 2, threshold = - 2,
       node_value = RegressionValue 3\<rparr>]"


text \<open>A node array with a cycle: the only node is its own left child.\<close>

definition cyclic_nodes :: "node list" where
  "cyclic_nodes =
     [\<lparr>left_child = 0, right_child = - 1, feature = 0, threshold = 0,
       node_value = RegressionValue 0\<rparr>]"


text \<open>The same tree as the state of a fitted regressor and of a fitted classifier.\<close>

definition example_sk_nodes :: "sk_node list" where
  "example_sk_nodes =
     [\<lparr>left_child = 1, right_child = 2, feature = 0, threshold = 1 / 2\<rparr>,
      \<lparr>left_child = - 1, right_child = - 1, feature = - 2, threshold = - 2\<rparr>,
      \<lparr>left_child = 3, right_child = 4, feature = 2, threshold = 3 / 2\<rparr>,
      \<lparr>left_child = - 1, right_child = - 1, feature = - 2, threshold = - 2\<rparr>,
      \<lparr>left_child = - 1, right_child = - 1, feature = - 2, threshold = - 2\<rparr>]"

definition example_regressor :: sklearn_model where
  "example_regressor =
     \<lparr>model_type = ''sklearn.tree._classes.DecisionTreeRegressor'',
      model_bases = [''sklearn.base.RegressorMixin'', ''sklearn.tree._classes.BaseDecisionTree'',
                     ''sklearn.base.MultiOutputMixin'', ''sklearn.base.BaseEstimator'',
                     ''object''],
      tree_attr = Some \<lparr>state_nodes = example_sk_nodes,
                        state_values = [[[3 / 2]], [[1]], [[2]], [[7 / 4]], [[3]]]\<rparr>,
      n_outputs = Some 1, n_classes = None, classes = None, n_features_in = Some 5\<rparr>"

definition example_classifier :: sklearn_model where
  "example_classifier =
     \<lparr>model_type = ''sklearn.tree._classes.DecisionTreeClassifier'',
      model_bases = [''sklearn.base.ClassifierMixin'', ''sklearn.tree._classes.BaseDecisionTree'',
                     ''sklearn.base.MultiOutputMixin'', ''sklearn.base.BaseEstimator'',
                     ''object''],
      tree_attr = Some \<lparr>state_nodes = example_sk_nodes,
                        state_values = [[[4, 4]], [[3, 1]], [[1, 3]], [[1, 0]], [[0, 3]]]\<rparr>,
      n_outputs = Some 1, n_classes = Some [2],
      classes = Some [IntLabel 0, IntLabel 1], n_features_in = Some 5\<rparr>"

text \<open>Estimators that were never fit: none of the fitted attributes is there.\<close>

definition unfitted_regressor :: sklearn_model where
  "unfitted_regressor =
     \<lparr>model_type = ''sklearn.tree._classes.DecisionTreeRegressor'',
      model_bases = [''sklearn.base.RegressorMixin'', ''sklearn.tree._classes.BaseDecisionTree'',
                     ''sklearn.base.MultiOutputMixin'', ''sklearn.base.BaseEstimator'',
                     ''object''],
      tree_attr = None, n_outputs = None, n_classes = None, classes = None,
      n_features_in = None\<rparr>"

definition unfitted_classifier :: sklearn_model where
  "unfitted_classifier =
     \<lparr>model_type = ''sklearn.tree._classes.DecisionTreeClassifier'',
      model_bases = [''sklearn.base.ClassifierMixin'', ''sklearn.tree._classes.BaseDecisionTree'',
                     ''sklearn.base.MultiOutputMixin'', ''sklearn.base.BaseEstimator'',
                     ''object''],
      tree_attr = None, n_outputs = None, n_classes = None, classes = None,
      n_features_in = None\<rparr>"

text \<open>A fitted regressor with two outputs, and a fitted estimator that is no tree.\<close>

definition two_output_regressor :: sklearn_model where
  "two_output_regressor =
     \<lparr>model_type = ''sklearn.tree._classes.DecisionTreeRegressor'',
      model_bases = [''sklearn.base.RegressorMixin'', ''sklearn.tree._classes.BaseDecisionTree'',
                     ''sklearn.base.MultiOutputMixin'', ''sklearn.base.BaseEstimator'',
                     ''object''],
      tree_attr = Some \<lparr>state_nodes = example_sk_nodes,
                        state_values = [[[3 / 2], [0]], [[1], [0]], [[2], [0]], [[7 / 4], [0]],
                                        [[3], [0]]]\<rparr>,
      n_outputs = Some 2, n_classes = None, classes = None, n_features_in = Some 5\<rparr>"

definition linear_model :: sklearn_model where
  "linear_model =
     \<lparr>model_type = ''sklearn.linear_model._base.LinearRegression'',
      model_bases = [''sklearn.base.MultiOutputMixin'', ''sklearn.base.RegressorMixin'',
                     ''sklearn.linear_model._base.LinearModel'', ''sklearn.base.BaseEstimator'',
                     ''object''],
      tree_attr = None, n_outputs = None, n_classes = None, classes = None,
      n_features_in = Some 5\<rparr>"


text \<open>
  An estimator of a class of the caller's own that inherits from
  \<^verbatim>\<open>DecisionTreeRegressor\<close>, fitted to the same tree.
\<close>

definition subclass_regressor :: sklearn_model where
  "subclass_regressor =
     \<lparr>model_type = ''mypackage.MyTree'',
      model_bases = [''sklearn.tree._classes.DecisionTreeRegressor'',
                     ''sklearn.base.RegressorMixin'', ''sklearn.tree._classes.BaseDecisionTree'',
                     ''sklearn.base.MultiOutputMixin'', ''sklearn.base.BaseEstimator'',
                     ''object''],
      tree_attr = Some \<lparr>state_nodes = example_sk_nodes,
                        state_values = [[[3 / 2]], [[1]], [[2]], [[7 / 4]], [[3]]]\<rparr>,
      n_outputs = Some 1, n_classes = None, classes = None, n_features_in = Some 5\<rparr>"

text \<open>
  A regressor fitted to a constant target over five features: its tree is one leaf.
\<close>

definition leaf_regressor :: sklearn_model where
  "leaf_regressor =
     \<lparr>model_type = ''sklearn.tree._classes.DecisionTreeRegressor'',
      model_bases = [''sklearn.base.RegressorMixin'', ''sklearn.tree._classes.BaseDecisionTree'',
                     ''sklearn.base.MultiOutputMixin'', ''sklearn.base.BaseEstimator'',
                     ''object''],
      tree_attr = Some \<lparr>state_nodes = [\<lparr>left_child = - 1, right_child = - 1, feature = - 2,
                                         threshold = - 2\<rparr>],
                        state_values = [[[1]]]\<rparr>,
      n_outputs = Some 1, n_classes = None, classes = None, n_features_in = Some 5\<rparr>"


text \<open>The converted regression tree, and the model that \<^verbatim>\<open>convert\<close> returns for it.\<close>

definition example_tree :: tfdf_node where
  "example_tree =
     NonLeafNode
       (NumericalHigherThanCondition \<lparr>name = ''0'', col_type = NUMERICAL, col_idx = 0\<rparr>
          (1 / 2) False)
       (Some (NonLeafNode
          (NumericalHigherThanCondition \<lparr>name = ''2'', col_type = NUMERICAL, col_idx = 2\<rparr>
             (3 / 2) False)
          (Some (LeafNode (RegressionValue 3)))
          (Some (LeafNode (RegressionValue (7 / 4))))))
       (Some (LeafNode (RegressionValue 1)))"

definition example_keras_model :: keras_model where
  "example_keras_model =
     KerasModel 5 [(''0'', 0), (''2'', 2)]
       (TFDFModel (RegressionObjective ''label'') (Tree (Some example_tree)))"


section \<open>Strings of integers\<close>

lemma digit_val_digit_char: "d < 10 \<Longrightarrow> digit_val (digit_char d) = Some d"
proof -
  have "\<forall>d<10. digit_val (digit_char d) = Some d"
    by (simp add: All_less_Suc numeral_eq_Suc digit_val_def digit_char_def)
  then show "d < 10 \<Longrightarrow> digit_val (digit_char d) = Some d" by blast
qed

lemma digit_char_not_sign: "d < 10 \<Longrightarrow> digit_char d \<noteq> CHR ''-'' \<and> digit_char d \<noteq> CHR ''+''"
proof -
  have "digit_val CHR ''-'' = None" "digit_val CHR ''+'' = None"
    by (simp_all add: digit_val_def)
  then show "d < 10 \<Longrightarrow> digit_char d \<noteq> CHR ''-'' \<and> digit_char d \<noteq> CHR ''+''"
    using digit_val_digit_char [of d] by force
qed

lemma int_digits_snoc:
  "int_digits acc (cs @ [c]) =
     (case int_digits acc cs of
        None \<Rightarrow> None
      | Some a \<Rightarrow> (case digit_val c of None \<Rightarrow> None | Some d \<Rightarrow> Some (10 * a + d)))"
  by (induction cs arbitrary: acc) (auto split: option.splits)

lemma int_digits_str_nat: "int_digits 0 (str_nat n) = Some n"
proof (induction n rule: str_nat.induct)
  case (1 n)
  show ?case
  proof (cases "n < 10")
    case True
    then show ?thesis by (subst str_nat.simps) (simp add: digit_val_digit_char)
  next
    case False
    with 1 have "int_digits 0 (str_nat (n div 10)) = Some (n div 10)" by simp
    with False show ?thesis
      by (subst str_nat.simps) (simp add: int_digits_snoc digit_val_digit_char)
  qed
qed

lemma str_nat_head: "str_nat n \<noteq> [] \<and> (\<exists>d<10. hd (str_nat n) = digit_char d)"
proof (induction n rule: str_nat.induct)
  case (1 n)
  show ?case
  proof (cases "n < 10")
    case True
    then show ?thesis by (subst (1 2) str_nat.simps) auto
  next
    case False
    with 1 have "str_nat (n div 10) \<noteq> [] \<and> (\<exists>d<10. hd (str_nat (n div 10)) = digit_char d)"
      by simp
    with False show ?thesis by (subst (1 2) str_nat.simps) simp
  qed
qed

lemma py_int_str_int: "py_int (str_int i) = Inr i"
proof (cases "i < 0")
  case True
  then show ?thesis
    using str_nat_head [of "nat (- i)"]
    by (simp add: py_int_def str_int_def int_digits_str_nat)
next
  case False
  from str_nat_head [of "nat i"] obtain d where d: "d < 10" "hd (str_nat (nat i)) = digit_char d"
    and ne: "str_nat (nat i) \<noteq> []" by blast
  from d digit_char_not_sign [of d] have "hd (str_nat (nat i)) \<noteq> CHR ''-''" "hd (str_nat (nat i)) \<noteq> CHR ''+''"
    by simp_all
  with False ne show ?thesis
    by (simp add: py_int_def str_int_def int_digits_str_nat)
qed


section \<open>Termination and shape of the node conversion\<close>

lemma finite_child_rel: "finite (child_rel nodes)"
proof -
  have "child_rel nodes \<subseteq>
          (left_child ` set nodes \<union> right_child ` set nodes) \<times> int ` {..<length nodes}"
  proof
    fix e assume e: "e \<in> child_rel nodes"
    obtain c p where cp: "e = (c, p)" by (cases e)
    from e cp have v: "0 \<le> p" "nat p < length nodes"
      and c: "c = left_child (nodes ! nat p) \<or> c = right_child (nodes ! nat p)"
      by (auto simp: child_rel_def valid_index_def)
    from v have "p = int (nat p)" by simp
    with v have "p \<in> int ` {..<length nodes}" by blast
    moreover from v c have "c \<in> left_child ` set nodes \<union> right_child ` set nodes"
      using nth_mem [of "nat p" nodes] by blast
    ultimately show "e \<in> (left_child ` set nodes \<union> right_child ` set nodes) \<times> int ` {..<length nodes}"
      using cp by simp
  qed
  then show ?thesis by (rule finite_subset) simp
qed

lemma wf_child_rel: "is_tree nodes \<Longrightarrow> wf (child_rel nodes)"
  by (rule finite_acyclic_wf [OF finite_child_rel]) (simp add: is_tree_def acyclic_def)

lemma py_getitem_valid: "valid_index xs i \<Longrightarrow> py_getitem xs i = Inr (xs ! nat i)"
  by (simp add: py_getitem_def valid_index_def)

lemma valid_index_mem: "valid_index xs i \<Longrightarrow> xs ! nat i \<in> set xs"
  unfolding valid_index_def by (intro nth_mem) linarith

lemma convert_node_sentinel: "convert_sklearn_node_to_tfdf_node (- 1) nodes = Some (Inr None)"
  by (simp add: convert_sklearn_node_to_tfdf_node.simps)

lemma convert_node_returns:
  assumes t: "is_tree nodes"
  shows "child_index_ok nodes i \<Longrightarrow>
         \<exists>r. convert_sklearn_node_to_tfdf_node i nodes = Some (Inr r) \<and> (r = None \<longleftrightarrow> i = - 1)"
proof (induction i rule: wf_induct_rule [OF wf_child_rel [OF t]])
  case (1 i)
  show ?case
  proof (cases "i = - 1")
    case True
    then show ?thesis by (simp add: convert_node_sentinel)
  next
    case False
    with "1.prems" have v: "valid_index nodes i" by (simp add: child_index_ok_def)
    define nd where "nd = nodes ! nat i"
    from v have get: "py_getitem nodes i = Inr nd"
      by (simp add: py_getitem_valid nd_def)
    from v have mem: "nd \<in> set nodes"
      by (simp add: nd_def valid_index_mem)
    with t have ok: "child_index_ok nodes (left_child nd)" "child_index_ok nodes (right_child nd)"
      by (simp_all add: is_tree_def)
    have sub: "\<exists>r. convert_sklearn_node_to_tfdf_node c nodes = Some (Inr r) \<and> (r = None \<longleftrightarrow> c = - 1)"
      if c: "c = left_child nd \<or> c = right_child nd" for c
    proof (cases "c = - 1")
      case True
      then show ?thesis by (simp add: convert_node_sentinel)
    next
      case False
      with c v have "(c, i) \<in> child_rel nodes" by (auto simp: child_rel_def nd_def)
      moreover from c ok have "child_index_ok nodes c" by auto
      ultimately show ?thesis by (rule "1.IH")
    qed
    from sub [of "left_child nd"] obtain neg where
      neg: "convert_sklearn_node_to_tfdf_node (left_child nd) nodes = Some (Inr neg)" by auto
    from sub [of "right_child nd"] obtain pos where
      pos: "convert_sklearn_node_to_tfdf_node (right_child nd) nodes = Some (Inr pos)" by auto
    show ?thesis
      by (subst convert_sklearn_node_to_tfdf_node.simps) (simp add: False get neg pos)
  qed
qed

lemma convert_node_step:
  assumes t: "is_tree nodes" and v: "valid_index nodes i"
  shows "\<exists>neg pos.
           convert_sklearn_node_to_tfdf_node (left_child (nodes ! nat i)) nodes = Some (Inr neg)
         \<and> convert_sklearn_node_to_tfdf_node (right_child (nodes ! nat i)) nodes = Some (Inr pos)
         \<and> (neg = None \<longleftrightarrow> left_child (nodes ! nat i) = - 1)
         \<and> (pos = None \<longleftrightarrow> right_child (nodes ! nat i) = - 1)
         \<and> convert_sklearn_node_to_tfdf_node i nodes =
             Some (Inr (Some
               (if pos \<noteq> None then
                  NonLeafNode
                    (NumericalHigherThanCondition
                       \<lparr>name = str_int (feature (nodes ! nat i)), col_type = NUMERICAL,
                        col_idx = feature (nodes ! nat i)\<rparr>
                       (threshold (nodes ! nat i)) False)
                    pos neg
                else LeafNode (node_value (nodes ! nat i)))))"
proof -
  define nd where "nd = nodes ! nat i"
  from v have get: "py_getitem nodes i = Inr nd"
    by (simp add: py_getitem_valid nd_def)
  from v have ne: "i \<noteq> - 1" by (simp add: valid_index_def)
  from v have "nd \<in> set nodes"
    by (simp add: nd_def valid_index_mem)
  with t have ok: "child_index_ok nodes (left_child nd)" "child_index_ok nodes (right_child nd)"
    by (simp_all add: is_tree_def)
  from convert_node_returns [OF t ok(1)] obtain neg where
    neg: "convert_sklearn_node_to_tfdf_node (left_child nd) nodes = Some (Inr neg)"
         "neg = None \<longleftrightarrow> left_child nd = - 1" by blast
  from convert_node_returns [OF t ok(2)] obtain pos where
    pos: "convert_sklearn_node_to_tfdf_node (right_child nd) nodes = Some (Inr pos)"
         "pos = None \<longleftrightarrow> right_child nd = - 1" by blast
  have "convert_sklearn_node_to_tfdf_node i nodes =
          Some (Inr (Some
            (if pos \<noteq> None then
               NonLeafNode
                 (NumericalHigherThanCondition
                    \<lparr>name = str_int (feature nd), col_type = NUMERICAL, col_idx = feature nd\<rparr>
                    (threshold nd) False)
                 pos neg
             else LeafNode (node_value nd))))"
    by (subst convert_sklearn_node_to_tfdf_node.simps) (simp add: ne get neg(1) pos(1))
  with neg pos show ?thesis unfolding nd_def by blast
qed

lemma is_tree_increasing:
  assumes ok: "\<forall>nd \<in> set nodes.
                 child_index_ok nodes (left_child nd) \<and> child_index_ok nodes (right_child nd)"
      and inc: "\<forall>p < length nodes.
                  (left_child (nodes ! p) = - 1 \<or> int p < left_child (nodes ! p))
                \<and> (right_child (nodes ! p) = - 1 \<or> int p < right_child (nodes ! p))"
  shows "is_tree nodes"
proof -
  have "acyclic (child_rel nodes)"
  proof (rule acyclicI_order [where f = "\<lambda>i. i"])
    fix c p assume "(c, p) \<in> child_rel nodes"
    then have v: "0 \<le> p" "nat p < length nodes" and ne: "c \<noteq> - 1"
      and c: "c = left_child (nodes ! nat p) \<or> c = right_child (nodes ! nat p)"
      by (auto simp: child_rel_def valid_index_def)
    from inc v(2) have
      "(left_child (nodes ! nat p) = - 1 \<or> int (nat p) < left_child (nodes ! nat p))
       \<and> (right_child (nodes ! nat p) = - 1 \<or> int (nat p) < right_child (nodes ! nat p))"
      by blast
    with c ne v(1) show "p < c" by auto
  qed
  with ok show ?thesis by (simp add: is_tree_def acyclic_def)
qed

lemma example_nodes_is_tree: "is_tree example_nodes"
  by (rule is_tree_increasing)
     (simp_all add: example_nodes_def child_index_ok_def valid_index_def All_less_Suc
        numeral_eq_Suc)


section \<open>Node construction and routing\<close>

lemma make_nodes_Inr:
  "make_nodes tt nvs = Inr nodes \<Longrightarrow>
     list_all2 (\<lambda>nv nd. sk_node.truncate nd = fst nv \<and> make_value tt (snd nv) = Inr (node_value nd))
       nvs nodes"
proof (induction nvs arbitrary: nodes)
  case Nil
  then show ?case by simp
next
  case (Cons nv nvs)
  obtain np tv where nv: "nv = (np, tv)" by (cases nv)
  from Cons.prems nv obtain v rest where
    v: "make_value tt tv = Inr v" and rest: "make_nodes tt nvs = Inr rest"
    and nodes: "nodes = sk_node.extend np (node.fields v) # rest"
    by (auto split: sum.splits)
  from Cons.IH [OF rest] nv v nodes show ?case
    by (simp add: sk_node.defs node.defs)
qed

lemma make_nodes_succeeds:
  "\<forall>nv \<in> set nvs. \<exists>v. make_value tt (snd nv) = Inr v \<Longrightarrow> \<exists>nodes. make_nodes tt nvs = Inr nodes"
proof (induction nvs)
  case Nil
  then show ?case by simp
next
  case (Cons nv nvs)
  obtain np tv where nv: "nv = (np, tv)" by (cases nv)
  from Cons.prems nv obtain v where v: "make_value tt tv = Inr v" by auto
  from Cons obtain rest where "make_nodes tt nvs = Inr rest" by auto
  with nv v show ?case by simp
qed

lemma child_rel_cong:
  assumes "length ns' = length ns"
    and "\<forall>i<length ns. left_child (ns' ! i) = left_child (ns ! i)
                       \<and> right_child (ns' ! i) = right_child (ns ! i)"
  shows "child_rel ns' = child_rel ns"
  using assms by (auto simp: child_rel_def valid_index_def)

lemma is_tree_cong:
  assumes len: "length ns' = length ns"
    and eq: "\<forall>i<length ns. left_child (ns' ! i) = left_child (ns ! i)
                       \<and> right_child (ns' ! i) = right_child (ns ! i)"
  shows "is_tree ns' \<longleftrightarrow> is_tree ns"
proof -
  have "(\<forall>nd \<in> set ns'. child_index_ok ns' (left_child nd) \<and> child_index_ok ns' (right_child nd))
        \<longleftrightarrow> (\<forall>nd \<in> set ns. child_index_ok ns (left_child nd) \<and> child_index_ok ns (right_child nd))"
    using len eq by (simp add: all_set_conv_all_nth child_index_ok_def valid_index_def)
  with child_rel_cong [OF len eq] show ?thesis by (simp add: is_tree_def)
qed

lemma routing_agrees:
  fixes nodes :: "node list" and ns :: "sk_node list"
  assumes t: "is_tree nodes"
    and len: "length ns = length nodes"
    and same: "\<forall>i<length nodes. sk_node.truncate (nodes ! i) = ns ! i"
    and shape: "\<forall>nd \<in> set nodes.
                 (left_child nd = - 1 \<longleftrightarrow> right_child nd = - 1)
                 \<and> (left_child nd \<noteq> - 1 \<longrightarrow> 0 \<le> feature nd \<and> feature nd < int (length x))"
  shows "valid_index nodes i \<Longrightarrow>
         \<exists>t leaf. convert_sklearn_node_to_tfdf_node i nodes = Some (Inr (Some t))
           \<and> sklearn_apply ns x i = Some (Inr leaf)
           \<and> valid_index nodes leaf
           \<and> (\<forall>k \<in> set (used_features t). \<exists>f. k = str_int f \<and> 0 \<le> f \<and> f < int (length x))
           \<and> (\<forall>ex. (\<forall>f. str_int f \<in> set (used_features t) \<longrightarrow> ex (str_int f) = Some (x ! nat f))
                  \<longrightarrow> route ex t = Inr (node_value (nodes ! nat leaf)))"
proof (induction i rule: wf_induct_rule [OF wf_child_rel [OF t]])
  case (1 i)
  note v = "1.prems"
  define nd where "nd = nodes ! nat i"
  from v have mem: "nd \<in> set nodes" by (simp add: nd_def valid_index_mem)
  from v have i: "0 \<le> i" "nat i < length nodes" unfolding valid_index_def by linarith+
  from same i have tr: "ns ! nat i = sk_node.truncate nd" by (simp add: nd_def)
  from v len have getn: "py_getitem ns i = Inr (sk_node.truncate nd)"
    by (simp add: py_getitem_def valid_index_def tr)
  from convert_node_step [OF t v] obtain neg pos where
    cl: "convert_sklearn_node_to_tfdf_node (left_child nd) nodes = Some (Inr neg)"
    and cr: "convert_sklearn_node_to_tfdf_node (right_child nd) nodes = Some (Inr pos)"
    and pn: "pos = None \<longleftrightarrow> right_child nd = - 1"
    and ci: "convert_sklearn_node_to_tfdf_node i nodes =
               Some (Inr (Some
                 (if pos \<noteq> None then
                    NonLeafNode
                      (NumericalHigherThanCondition
                         \<lparr>name = str_int (feature nd), col_type = NUMERICAL, col_idx = feature nd\<rparr>
                         (threshold nd) False)
                      pos neg
                  else LeafNode (node_value nd))))"
    unfolding nd_def by blast
  show ?case
  proof (cases "left_child nd = - 1")
    case True
    with shape mem have "right_child nd = - 1" by blast
    with pn ci have "convert_sklearn_node_to_tfdf_node i nodes = Some (Inr (Some (LeafNode (node_value nd))))"
      by simp
    moreover from True getn have "sklearn_apply ns x i = Some (Inr i)"
      by (subst sklearn_apply.simps) (simp add: sk_node.defs)
    ultimately show ?thesis using v by (auto simp: nd_def)
  next
    case False
    with shape mem have r: "right_child nd \<noteq> - 1"
      and f: "0 \<le> feature nd" "feature nd < int (length x)" by blast+
    from t mem have ok: "child_index_ok nodes (left_child nd)" "child_index_ok nodes (right_child nd)"
      by (simp_all add: is_tree_def)
    with False r have vl: "valid_index nodes (left_child nd)" and vr: "valid_index nodes (right_child nd)"
      by (simp_all add: child_index_ok_def)
    from False v have "(left_child nd, i) \<in> child_rel nodes" by (simp add: child_rel_def nd_def)
    from "1.IH" [OF this vl] cl obtain tn ln where
      neg: "neg = Some tn" and al: "sklearn_apply ns x (left_child nd) = Some (Inr ln)"
      and vln: "valid_index nodes ln"
      and un: "\<forall>k \<in> set (used_features tn). \<exists>f. k = str_int f \<and> 0 \<le> f \<and> f < int (length x)"
      and rn: "\<forall>ex. (\<forall>f. str_int f \<in> set (used_features tn) \<longrightarrow> ex (str_int f) = Some (x ! nat f))
                  \<longrightarrow> route ex tn = Inr (node_value (nodes ! nat ln))"
      by auto
    from r v have "(right_child nd, i) \<in> child_rel nodes" by (simp add: child_rel_def nd_def)
    from "1.IH" [OF this vr] cr obtain tp lp where
      pos: "pos = Some tp" and ar: "sklearn_apply ns x (right_child nd) = Some (Inr lp)"
      and vlp: "valid_index nodes lp"
      and up: "\<forall>k \<in> set (used_features tp). \<exists>f. k = str_int f \<and> 0 \<le> f \<and> f < int (length x)"
      and rp: "\<forall>ex. (\<forall>f. str_int f \<in> set (used_features tp) \<longrightarrow> ex (str_int f) = Some (x ! nat f))
                  \<longrightarrow> route ex tp = Inr (node_value (nodes ! nat lp))"
      by auto
    define tr' where "tr' = NonLeafNode
                      (NumericalHigherThanCondition
                         \<lparr>name = str_int (feature nd), col_type = NUMERICAL, col_idx = feature nd\<rparr>
                         (threshold nd) False)
                      (Some tp) (Some tn)"
    from ci pos neg have conv: "convert_sklearn_node_to_tfdf_node i nodes = Some (Inr (Some tr'))"
      by (simp add: tr'_def)
    from f have getx: "py_getitem x (feature nd) = Inr (x ! nat (feature nd))"
      by (simp add: py_getitem_def)
    show ?thesis
    proof (cases "threshold nd < x ! nat (feature nd)")
      case True
      from True False getn getx ar have "sklearn_apply ns x i = Some (Inr lp)"
        by (subst sklearn_apply.simps) (simp add: sk_node.defs)
      moreover have "route ex tr' = Inr (node_value (nodes ! nat lp))"
        if "\<forall>f. str_int f \<in> set (used_features tr') \<longrightarrow> ex (str_int f) = Some (x ! nat f)" for ex
      proof -
        from that have "ex (str_int (feature nd)) = Some (x ! nat (feature nd))"
          by (simp add: tr'_def)
        moreover from that rp have "route ex tp = Inr (node_value (nodes ! nat lp))"
          by (simp add: tr'_def)
        ultimately show ?thesis using True by (simp add: tr'_def)
      qed
      moreover from un up f
      have "\<forall>k \<in> set (used_features tr'). \<exists>f. k = str_int f \<and> 0 \<le> f \<and> f < int (length x)"
        by (auto simp: tr'_def)
      ultimately show ?thesis using conv vlp by blast
    next
      case nt: False
      from nt False getn getx al have "sklearn_apply ns x i = Some (Inr ln)"
        by (subst sklearn_apply.simps) (simp add: sk_node.defs)
      moreover have "route ex tr' = Inr (node_value (nodes ! nat ln))"
        if "\<forall>f. str_int f \<in> set (used_features tr') \<longrightarrow> ex (str_int f) = Some (x ! nat f)" for ex
      proof -
        from that have "ex (str_int (feature nd)) = Some (x ! nat (feature nd))"
          by (simp add: tr'_def)
        moreover from that rn have "route ex tn = Inr (node_value (nodes ! nat ln))"
          by (simp add: tr'_def)
        ultimately show ?thesis using nt by (simp add: tr'_def)
      qed
      moreover from un up f
      have "\<forall>k \<in> set (used_features tr'). \<exists>f. k = str_int f \<and> 0 \<le> f \<and> f < int (length x)"
        by (auto simp: tr'_def)
      ultimately show ?thesis using conv vln by blast
    qed
  qed
qed


section \<open>Task-type resolution\<close>

text \<open>
  C3. Task-type resolution returns single-label classification exactly when the
  estimator declares one output and has a number-of-classes attribute, scalar
  regression exactly when it declares one output and has no such attribute, and
  unknown for every other declared number of outputs.
\<close>

theorem task_type_resolution:
  "(get_sklearn_tree_task_type t = Inr SINGLE_LABEL_CLASSIFICATION
      \<longleftrightarrow> n_outputs t = Some 1 \<and> n_classes t \<noteq> None)
   \<and> (get_sklearn_tree_task_type t = Inr SCALAR_REGRESSION
      \<longleftrightarrow> n_outputs t = Some 1 \<and> n_classes t = None)
   \<and> (\<forall>k. n_outputs t = Some k \<and> k \<noteq> 1 \<longrightarrow> get_sklearn_tree_task_type t = Inr UNKNOWN)"
  by (auto simp: get_sklearn_tree_task_type_def split: option.splits)

theorem task_type_resolution_witness:
  "n_outputs example_classifier = Some 1
   \<and> get_sklearn_tree_task_type example_classifier = Inr SINGLE_LABEL_CLASSIFICATION
   \<and> n_classes example_regressor = None
   \<and> get_sklearn_tree_task_type example_regressor = Inr SCALAR_REGRESSION
   \<and> n_outputs two_output_regressor = Some 2 \<and> (2 :: int) \<noteq> 1
   \<and> get_sklearn_tree_task_type two_output_regressor = Inr UNKNOWN"
proof -
  have c: "n_outputs example_classifier = Some 1" "n_classes example_classifier \<noteq> None"
    by (simp_all add: example_classifier_def)
  have r: "n_outputs example_regressor = Some 1" "n_classes example_regressor = None"
    by (simp_all add: example_regressor_def)
  have u: "n_outputs two_output_regressor = Some 2"
    by (simp add: two_output_regressor_def)
  from task_type_resolution [of example_classifier] c
  have tc: "get_sklearn_tree_task_type example_classifier = Inr SINGLE_LABEL_CLASSIFICATION"
    by blast
  from task_type_resolution [of example_regressor] r
  have tr: "get_sklearn_tree_task_type example_regressor = Inr SCALAR_REGRESSION"
    by blast
  from task_type_resolution [of two_output_regressor] u
  have tu: "get_sklearn_tree_task_type two_output_regressor = Inr UNKNOWN"
    by auto
  from c(1) tc r(2) tr u tu show ?thesis by simp
qed


section \<open>Runs of the node conversion that return, and one that does not\<close>


text \<open>Induction over the runs of the node conversion that return.\<close>

lemmas convert_node_partial_induct =
  convert_sklearn_node_to_tfdf_node.raw_induct [rotated, consumes 1, case_names step]

lemma cyclic_conversion_does_not_return:
  "convert_sklearn_node_to_tfdf_node 0 cyclic_nodes = None"
proof -
  have "\<not> (i = 0 \<and> ns = cyclic_nodes)"
    if "convert_sklearn_node_to_tfdf_node i ns = Some y" for i ns y
    using that
  proof (induction rule: convert_node_partial_induct)
    case (step conv i ns y)
    show ?case
    proof
      assume "i = 0 \<and> ns = cyclic_nodes"
      with step.hyps obtain r where "conv 0 cyclic_nodes = Some r"
        by (auto simp: py_getitem_def cyclic_nodes_def Option.bind_eq_Some_conv)
      from step.IH [OF this] show False by simp
    qed
  qed
  then show ?thesis
    by (cases "convert_sklearn_node_to_tfdf_node 0 cyclic_nodes") auto
qed

lemma cyclic_nodes_not_tree: "\<not> is_tree cyclic_nodes"
proof -
  have "(0, 0) \<in> child_rel cyclic_nodes"
    by (simp add: child_rel_def valid_index_def cyclic_nodes_def)
  then have "(0, 0) \<in> (child_rel cyclic_nodes)\<^sup>+" by (rule r_into_trancl)
  then show ?thesis unfolding is_tree_def by blast
qed

section \<open>Structure of the recursive conversion\<close>

text \<open>
  C2. On a node array whose child indices describe a tree: index \<open>-1\<close> gives no
  node. At every other index the conversion of \<open>left_child\<close> is the negative
  branch and the conversion of \<open>right_child\<close> the positive branch; when the
  positive branch is a node, the result is a decision node whose condition is on the
  column \<open>feature\<close> (named by its decimal string) with the node's threshold and
  \<open>missing_evaluation\<close> false, with children (positive, negative); when it is not,
  the result is a leaf that carries the value made for the node. A condition with
  \<open>missing_evaluation\<close> false sends an example that lacks the feature to the
  negative child.
\<close>

theorem node_conversion_structure:
  assumes "is_tree nodes"
  shows "convert_sklearn_node_to_tfdf_node (- 1) nodes = Some (Inr None)
     \<and> (\<forall>i. valid_index nodes i \<longrightarrow>
          (\<exists>neg pos.
              convert_sklearn_node_to_tfdf_node (left_child (nodes ! nat i)) nodes = Some (Inr neg)
            \<and> convert_sklearn_node_to_tfdf_node (right_child (nodes ! nat i)) nodes = Some (Inr pos)
            \<and> convert_sklearn_node_to_tfdf_node i nodes =
                Some (Inr (Some
                  (case pos of
                     Some p \<Rightarrow>
                       NonLeafNode
                         (NumericalHigherThanCondition
                            \<lparr>name = str_int (feature (nodes ! nat i)), col_type = NUMERICAL,
                             col_idx = feature (nodes ! nat i)\<rparr>
                            (threshold (nodes ! nat i)) False)
                         (Some p) neg
                   | None \<Rightarrow> LeafNode (node_value (nodes ! nat i)))))))
     \<and> (\<forall>c p n (example :: string \<rightharpoonup> rat). example (name (cond_feature c)) = None \<and> missing_evaluation c = False \<longrightarrow>
            route example (NonLeafNode c p (Some n)) = route example n)"
proof (intro conjI allI impI)
  show "convert_sklearn_node_to_tfdf_node (- 1) nodes = Some (Inr None)"
    by (rule convert_node_sentinel)
next
  fix i assume "valid_index nodes i"
  from convert_node_step [OF assms this] obtain neg pos where
    "convert_sklearn_node_to_tfdf_node (left_child (nodes ! nat i)) nodes = Some (Inr neg)"
    "convert_sklearn_node_to_tfdf_node (right_child (nodes ! nat i)) nodes = Some (Inr pos)"
    "convert_sklearn_node_to_tfdf_node i nodes =
             Some (Inr (Some
               (if pos \<noteq> None then
                  NonLeafNode
                    (NumericalHigherThanCondition
                       \<lparr>name = str_int (feature (nodes ! nat i)), col_type = NUMERICAL,
                        col_idx = feature (nodes ! nat i)\<rparr>
                       (threshold (nodes ! nat i)) False)
                    pos neg
                else LeafNode (node_value (nodes ! nat i)))))"
    by blast
  then show "\<exists>neg pos.
              convert_sklearn_node_to_tfdf_node (left_child (nodes ! nat i)) nodes = Some (Inr neg)
            \<and> convert_sklearn_node_to_tfdf_node (right_child (nodes ! nat i)) nodes = Some (Inr pos)
            \<and> convert_sklearn_node_to_tfdf_node i nodes =
                Some (Inr (Some
                  (case pos of
                     Some p \<Rightarrow>
                       NonLeafNode
                         (NumericalHigherThanCondition
                            \<lparr>name = str_int (feature (nodes ! nat i)), col_type = NUMERICAL,
                             col_idx = feature (nodes ! nat i)\<rparr>
                            (threshold (nodes ! nat i)) False)
                         (Some p) neg
                   | None \<Rightarrow> LeafNode (node_value (nodes ! nat i)))))"
    by (cases pos) auto
next
  fix c p n and example :: "string \<rightharpoonup> rat"
  assume "example (name (cond_feature c)) = None \<and> missing_evaluation c = False"
  then show "route example (NonLeafNode c p (Some n)) = route example n" by simp
qed

lemma example_nodes_leaves:
  "convert_sklearn_node_to_tfdf_node 3 example_nodes = Some (Inr (Some (LeafNode (RegressionValue (7 / 4)))))"
  "convert_sklearn_node_to_tfdf_node 4 example_nodes = Some (Inr (Some (LeafNode (RegressionValue 3))))"
  by (simp_all add: convert_sklearn_node_to_tfdf_node.simps example_nodes_def py_getitem_def)

theorem node_conversion_structure_witness:
  "is_tree example_nodes \<and> valid_index example_nodes 2
   \<and> convert_sklearn_node_to_tfdf_node 2 example_nodes =
       Some (Inr (Some
         (NonLeafNode
            (NumericalHigherThanCondition \<lparr>name = ''2'', col_type = NUMERICAL, col_idx = 2\<rparr>
               (3 / 2) False)
            (Some (LeafNode (RegressionValue 3)))
            (Some (LeafNode (RegressionValue (7 / 4)))))))
   \<and> route (Map.empty(''0'' \<mapsto> 1))
        (NonLeafNode
            (NumericalHigherThanCondition \<lparr>name = ''2'', col_type = NUMERICAL, col_idx = 2\<rparr>
               (3 / 2) False)
            (Some (LeafNode (RegressionValue 3)))
            (Some (LeafNode (RegressionValue (7 / 4))))) = Inr (RegressionValue (7 / 4))"
proof -
  have v: "valid_index example_nodes 2"
    by (simp add: valid_index_def example_nodes_def)
  have nd: "example_nodes ! nat 2 =
              \<lparr>left_child = 3, right_child = 4, feature = 2, threshold = 3 / 2,
               node_value = RegressionValue 2\<rparr>"
    by (simp add: example_nodes_def numeral_eq_Suc)
  have s: "str_int 2 = ''2''"
    by (simp add: str_int_def str_nat.simps digit_char_def numeral_eq_Suc)
  from node_conversion_structure [OF example_nodes_is_tree] v obtain neg pos where
    "convert_sklearn_node_to_tfdf_node (left_child (example_nodes ! nat 2)) example_nodes
       = Some (Inr neg)"
    "convert_sklearn_node_to_tfdf_node (right_child (example_nodes ! nat 2)) example_nodes
       = Some (Inr pos)"
    "convert_sklearn_node_to_tfdf_node 2 example_nodes =
       Some (Inr (Some
         (case pos of
            Some p \<Rightarrow>
              NonLeafNode
                (NumericalHigherThanCondition
                   \<lparr>name = str_int (feature (example_nodes ! nat 2)), col_type = NUMERICAL,
                    col_idx = feature (example_nodes ! nat 2)\<rparr>
                   (threshold (example_nodes ! nat 2)) False)
                (Some p) neg
          | None \<Rightarrow> LeafNode (node_value (example_nodes ! nat 2)))))"
    by blast
  with nd s example_nodes_leaves have
    "convert_sklearn_node_to_tfdf_node 2 example_nodes =
       Some (Inr (Some
         (NonLeafNode
            (NumericalHigherThanCondition \<lparr>name = ''2'', col_type = NUMERICAL, col_idx = 2\<rparr>
               (3 / 2) False)
            (Some (LeafNode (RegressionValue 3)))
            (Some (LeafNode (RegressionValue (7 / 4)))))))"
    by auto
  with v example_nodes_is_tree show ?thesis by simp
qed

section \<open>Termination of the recursive conversion\<close>

text \<open>
  C10. When every child index of the node array is \<open>-1\<close> or a valid index and no
  node is its own ancestor, the conversion started at the root index 0 returns; on a
  non-empty array it returns a node. (The lemma
  \<open>cyclic_conversion_does_not_return\<close> shows a cyclic array on which the
  conversion does not return: the source has no defence against cycles.)
\<close>

theorem node_conversion_terminates:
  assumes "is_tree nodes"
  shows "(\<exists>r. convert_sklearn_node_to_tfdf_node 0 nodes = Some r)
     \<and> (nodes \<noteq> [] \<longrightarrow> (\<exists>t. convert_sklearn_node_to_tfdf_node 0 nodes = Some (Inr (Some t))))"
proof (cases "nodes = []")
  case True
  then show ?thesis
    by (simp add: convert_sklearn_node_to_tfdf_node.simps py_getitem_def)
next
  case False
  then have "child_index_ok nodes 0" by (simp add: child_index_ok_def valid_index_def)
  from convert_node_returns [OF assms this] show ?thesis by auto
qed

theorem node_conversion_terminates_witness:
  "is_tree example_nodes \<and> example_nodes \<noteq> []
   \<and> (\<exists>t. convert_sklearn_node_to_tfdf_node 0 example_nodes = Some (Inr (Some t)))"
  using node_conversion_terminates [OF example_nodes_is_tree] example_nodes_is_tree
  by (simp add: example_nodes_def)


section \<open>Values of a classification tree\<close>

lemma py_getitem_mem: "py_getitem xs i = Inr x \<Longrightarrow> x \<in> set xs"
  by (auto simp: py_getitem_def split: if_splits intro!: nth_mem)











lemma example_sk_nodes_is_tree: "is_tree example_sk_nodes"
  by (rule is_tree_increasing)
     (simp_all add: example_sk_nodes_def child_index_ok_def valid_index_def All_less_Suc
        numeral_eq_Suc)




section \<open>Rejection of unsupported task types\<close>

text \<open>
  C5. For an estimator with fitted tree state (at least a root with its value) whose
  declared number of outputs is not 1, the task type resolves to unknown and the tree
  translation fails with the error for unsupported tasks. The error comes from the
  loop that makes the node values, at its first node, before the node conversion is
  called: the statement holds for every node array, also for one on which the node
  conversion would raise or not return.
\<close>

theorem unknown_task_type_rejected:
  assumes "tree_attr est = Some st"
    and "state_nodes st \<noteq> []" and "state_values st \<noteq> []"
    and "n_outputs est = Some k" and "k \<noteq> 1"
  shows "get_sklearn_tree_task_type est = Inr UNKNOWN
     \<and> convert_sklearn_tree_to_tfdf_pytree est =
         Some (Inl (ValueError
           ''Only scalar regression and single-label classification are supported.''))"
proof -
  from assms(4,5) have task: "get_sklearn_tree_task_type est = Inr UNKNOWN"
    by (simp add: get_sklearn_tree_task_type_def)
  from assms(2,3) obtain np nps tv tvs where
    "state_nodes st = np # nps" "state_values st = tv # tvs"
    by (cases "state_nodes st"; cases "state_values st") auto
  then have "make_nodes UNKNOWN (zip (state_nodes st) (state_values st)) =
          Inl (ValueError ''Only scalar regression and single-label classification are supported.'')"
    by (simp add: make_value_def)
  with task assms(1) show ?thesis
    by (simp add: convert_sklearn_tree_to_tfdf_pytree_def)
qed

theorem unknown_task_type_rejected_witness:
  "n_outputs two_output_regressor = Some 2 \<and> (2 :: int) \<noteq> 1
   \<and> get_sklearn_tree_task_type two_output_regressor = Inr UNKNOWN
   \<and> convert_sklearn_tree_to_tfdf_pytree two_output_regressor =
         Some (Inl (ValueError
           ''Only scalar regression and single-label classification are supported.''))"
  using unknown_task_type_rejected
    [of two_output_regressor
        "\<lparr>state_nodes = example_sk_nodes,
          state_values = [[[3 / 2], [0]], [[1], [0]], [[2], [0]], [[7 / 4], [0]], [[3], [0]]]\<rparr>"
        2]
  by (simp add: two_output_regressor_def example_sk_nodes_def)

section \<open>Estimators that were never fit\<close>

lemma unfitted_tree_translation:
  "tree_attr est = None \<Longrightarrow>
     convert_sklearn_tree_to_tfdf_pytree est =
       Some (Inl (ValueError ''Scikit-Learn model must be fit to data before converting.''))"
  by (simp add: convert_sklearn_tree_to_tfdf_pytree_def)

lemma unfitted_regressor_conversion:
  "convert unfitted_regressor None tmp fs =
     Some (Inl (ValueError ''Scikit-Learn model must be fit to data before converting.''),
           fs(tmp := None))"
  by (simp add: convert_def build_tfdf_model_def dispatch_class_def build_regression_def
      unfitted_tree_translation unfitted_regressor_def regression_classes_def
      classification_classes_def)

text \<open>
  C6. An estimator without tree state makes the tree translator fail with the error
  for models that were not fit (\<open>unfitted_tree_translation\<close>), and so does
  \<^verbatim>\<open>convert\<close> on a regressor (\<open>unfitted_regressor_conversion\<close>). On a
  classifier that was never fit, \<^verbatim>\<open>convert\<close> fails differently: the
  classification path reads \<^verbatim>\<open>classes_\<close> before it calls the translator, and
  the attribute is not there.
\<close>

theorem unfitted_classifier_conversion:
  "convert unfitted_classifier None tmp fs =
     Some (Inl (AttributeError ''classes_''), fs(tmp := None))"
  by (simp add: convert_def build_tfdf_model_def dispatch_class_def build_classification_def
      unfitted_classifier_def regression_classes_def classification_classes_def)

section \<open>The intermediate directory\<close>

lemma load_after_close: "load_model p (cart_builder_close p obj t fs) = Inr (TFDFModel obj t)"
  by (simp add: load_model_def cart_builder_close_def)

lemma build_tfdf_model_effect:
  assumes "build_tfdf_model m p fs = Some (r, fs')"
  shows "(\<exists>e. r = Inl e \<and> fs' = fs) \<or> (\<exists>mdl. r = Inr mdl \<and> fs' = fs(p \<mapsto> Directory (Some mdl)))"
  using assms
  by (auto simp: build_tfdf_model_def build_regression_def build_classification_def
        load_model_def cart_builder_close_def Let_def
      split: option.splits sum.splits if_splits)

text \<open>
  C9. When \<^verbatim>\<open>convert\<close> returns, with a model or with an error: if no
  directory was supplied (the path is \<^verbatim>\<open>None\<close> or empty), the temporary
  directory is gone and the file system is otherwise as it was; if a path was
  supplied, nothing but that path has changed, and that path holds the model that was
  persisted there (on success the very model the result wraps; on failure either what
  it held before or a persisted model).
\<close>

theorem temporary_directory_lifecycle:
  assumes "convert m wp tmp fs = Some (r, fs')"
  shows "(wp = None \<or> wp = Some [] \<longrightarrow> fs' tmp = None \<and> fs' = fs(tmp := None))
     \<and> (\<forall>p. wp = Some p \<and> p \<noteq> [] \<longrightarrow>
           (\<forall>q. q \<noteq> p \<longrightarrow> fs' q = fs q)
           \<and> (case r of
                Inr km \<Rightarrow> fs' p = Some (Directory (Some (inner_model km)))
              | Inl e \<Rightarrow> fs' p = fs p \<or> (\<exists>mdl. fs' p = Some (Directory (Some mdl)))))"
proof -
  have tmp: "fs' tmp = None \<and> fs' = fs(tmp := None)" if wp: "wp = None \<or> wp = Some []"
  proof -
    from wp assms obtain r0 fs2 where
      b: "build_tfdf_model m tmp (fs(tmp \<mapsto> Directory None)) = Some (r0, fs2)"
      and fs': "fs' = fs2(tmp := None)"
      by (auto simp: convert_def split: option.splits)
    from build_tfdf_model_effect [OF b] fs' have "fs' = fs(tmp := None)" by auto
    then show ?thesis by simp
  qed
  have supplied: "(\<forall>q. q \<noteq> p \<longrightarrow> fs' q = fs q)
           \<and> (case r of
                Inr km \<Rightarrow> fs' p = Some (Directory (Some (inner_model km)))
              | Inl e \<Rightarrow> fs' p = fs p \<or> (\<exists>mdl. fs' p = Some (Directory (Some mdl))))"
    if wp: "wp = Some p \<and> p \<noteq> []" for p
  proof -
    from wp assms obtain r0 where
      b: "build_tfdf_model m p fs = Some (r0, fs')"
      and r: "r = (case r0 of
                      Inl e \<Rightarrow> Inl e
                    | Inr tfdf_model \<Rightarrow>
                        (case n_features_in m of
                           None \<Rightarrow> Inl (AttributeError ''n_features_in_'')
                         | Some n \<Rightarrow>
                             (case slice_columns n (serving_signature tfdf_model) of
                                Inl e \<Rightarrow> Inl e
                              | Inr cols \<Rightarrow>
                                  if cols = [] then Inl DisconnectedOutputs
                                  else Inr (KerasModel n cols tfdf_model))))"
      by (auto simp: convert_def split: option.splits)
    from build_tfdf_model_effect [OF b] have "\<forall>q. q \<noteq> p \<longrightarrow> fs' q = fs q" by auto
    moreover from build_tfdf_model_effect [OF b] r
    have "case r of
            Inr km \<Rightarrow> fs' p = Some (Directory (Some (inner_model km)))
          | Inl e \<Rightarrow> fs' p = fs p \<or> (\<exists>mdl. fs' p = Some (Directory (Some mdl)))"
      by (auto split: sum.splits option.splits)
    ultimately show ?thesis by blast
  qed
  from tmp supplied show ?thesis by blast
qed

lemma example_regressor_pytree:
  "convert_sklearn_tree_to_tfdf_pytree example_regressor = Some (Inr (Tree (Some example_tree)))"
  by code_simp

lemma example_signature:
  "serving_signature (TFDFModel obj (Tree (Some example_tree))) = [''0'', ''2'']"
  by (simp add: serving_signature_def example_tree_def)

lemma example_slices: "slice_columns 5 [''0'', ''2''] = Inr [(''0'', 0), (''2'', 2)]"
  by code_simp

lemma example_regressor_build:
  "build_tfdf_model example_regressor p fs =
     Some (Inr (TFDFModel (RegressionObjective ''label'') (Tree (Some example_tree))),
           fs(p \<mapsto> Directory (Some (TFDFModel (RegressionObjective ''label'')
                                        (Tree (Some example_tree))))))"
proof -
  have "dispatch_class example_regressor = Some ''sklearn.tree._classes.DecisionTreeRegressor''"
    by (simp add: dispatch_class_def example_regressor_def regression_classes_def)
  then show ?thesis
    by (simp add: build_tfdf_model_def build_regression_def example_regressor_pytree
        load_after_close regression_classes_def)
       (simp add: cart_builder_close_def)
qed

lemma example_regressor_convert_temporary:
  "convert example_regressor None tmp fs = Some (Inr example_keras_model, fs(tmp := None))"
proof -
  have "n_features_in example_regressor = Some 5" by (simp add: example_regressor_def)
  then show ?thesis
    by (simp add: convert_def example_regressor_build example_signature example_slices
        example_keras_model_def del: slice_columns.simps)
qed

lemma example_regressor_convert_supplied:
  "convert example_regressor (Some ''out'') tmp fs =
     Some (Inr example_keras_model,
           fs(''out'' \<mapsto> Directory (Some (TFDFModel (RegressionObjective ''label'')
                                        (Tree (Some example_tree))))))"
proof -
  have "n_features_in example_regressor = Some 5" by (simp add: example_regressor_def)
  then show ?thesis
    by (simp add: convert_def example_regressor_build example_signature example_slices
        example_keras_model_def del: slice_columns.simps)
qed

theorem temporary_directory_lifecycle_witness:
  "convert example_regressor None ''tmp'' Map.empty = Some (Inr example_keras_model, Map.empty)
   \<and> (Map.empty :: filesystem) ''tmp'' = None
   \<and> convert unfitted_regressor None ''tmp'' Map.empty =
       Some (Inl (ValueError ''Scikit-Learn model must be fit to data before converting.''),
             Map.empty)
   \<and> convert example_regressor (Some ''out'') ''tmp'' Map.empty =
       Some (Inr example_keras_model,
             [''out'' \<mapsto> Directory (Some (inner_model example_keras_model))])
   \<and> [''out'' \<mapsto> Directory (Some (inner_model example_keras_model))] ''out''
       = Some (Directory (Some (inner_model example_keras_model)))"
proof -
  have a: "convert example_regressor None ''tmp'' Map.empty =
             Some (Inr example_keras_model, Map.empty)"
    by (simp add: example_regressor_convert_temporary)
  have b: "convert unfitted_regressor None ''tmp'' Map.empty =
       Some (Inl (ValueError ''Scikit-Learn model must be fit to data before converting.''),
             Map.empty)"
    by (simp add: unfitted_regressor_conversion)
  have c: "convert example_regressor (Some ''out'') ''tmp'' Map.empty =
       Some (Inr example_keras_model,
             [''out'' \<mapsto> Directory (Some (inner_model example_keras_model))])"
    by (simp add: example_regressor_convert_supplied example_keras_model_def)
  from temporary_directory_lifecycle [OF a] temporary_directory_lifecycle [OF b]
       temporary_directory_lifecycle [OF c] a b c
  show ?thesis by simp
qed


section \<open>Dispatch on the estimator's class\<close>

lemma dispatch_class_none:
  "set (model_type m # model_bases m) \<inter> set (regression_classes @ classification_classes) = {}
     \<Longrightarrow> dispatch_class m = None"
  unfolding dispatch_class_def find_None_iff by blast

lemma find_first:
  "set pre \<inter> S = {} \<Longrightarrow> c \<in> S \<Longrightarrow> find (\<lambda>x. x \<in> S) (pre @ c # post) = Some c"
  by (induction pre) auto

lemma dispatch_class_first:
  assumes "model_type m # model_bases m = pre @ c # post"
    and "set pre \<inter> set (regression_classes @ classification_classes) = {}"
    and "c \<in> set (regression_classes @ classification_classes)"
  shows "dispatch_class m = Some c"
  unfolding dispatch_class_def assms(1) using assms(2,3) by (rule find_first)

lemma subclass_regressor_pytree:
  "convert_sklearn_tree_to_tfdf_pytree subclass_regressor = Some (Inr (Tree (Some example_tree)))"
  by code_simp

lemma subclass_regressor_convert:
  "convert subclass_regressor None tmp fs = Some (Inr example_keras_model, fs(tmp := None))"
proof -
  have d: "dispatch_class subclass_regressor = Some ''sklearn.tree._classes.DecisionTreeRegressor''"
    by (simp add: dispatch_class_def subclass_regressor_def regression_classes_def
        classification_classes_def)
  have b: "build_tfdf_model subclass_regressor p fs' =
     Some (Inr (TFDFModel (RegressionObjective ''label'') (Tree (Some example_tree))),
           fs'(p \<mapsto> Directory (Some (TFDFModel (RegressionObjective ''label'')
                                        (Tree (Some example_tree))))))" for p fs'
    using d
    by (simp add: build_tfdf_model_def build_regression_def subclass_regressor_pytree
        load_after_close regression_classes_def)
       (simp add: cart_builder_close_def)
  have "n_features_in subclass_regressor = Some 5" by (simp add: subclass_regressor_def)
  then show ?thesis
    by (simp add: convert_def b example_signature example_slices example_keras_model_def
          del: slice_columns.simps)
qed

text \<open>
  C7, as the claim states it, fails: an estimator whose class is none of the four
  registered classes but inherits from one of them is not rejected. The class
  \<^verbatim>\<open>mypackage.MyTree\<close> is not registered, and \<^verbatim>\<open>convert\<close> returns a model
  for an instance of it.
\<close>

theorem subclass_is_converted:
  "model_type subclass_regressor \<notin> set (regression_classes @ classification_classes)
   \<and> convert subclass_regressor None ''tmp'' Map.empty
       = Some (Inr example_keras_model, Map.empty)"
proof -
  have "model_type subclass_regressor \<notin> set (regression_classes @ classification_classes)"
    by (simp add: subclass_regressor_def regression_classes_def classification_classes_def)
  moreover have "convert subclass_regressor None ''tmp'' Map.empty
       = Some (Inr example_keras_model, Map.empty)"
    by (simp add: subclass_regressor_convert)
  ultimately show ?thesis by simp
qed

text \<open>
  C7, amended. Four classes have a registered implementation, and dispatch follows
  the method resolution order of the estimator's class: the first class in that
  order that is registered decides, so an estimator whose class is, or inherits
  from, a regression tree class goes to the regression path and one whose class is,
  or inherits from, a classification tree class goes to the classification path.
  For an estimator whose class is none of the four and inherits from none of them,
  the build step, and with it \<^verbatim>\<open>convert\<close>, fails with the error that names the
  class; nothing else is tried.
\<close>

theorem dispatch_follows_mro:
  "regression_classes @ classification_classes =
      [''sklearn.tree._classes.DecisionTreeRegressor'', ''sklearn.tree._classes.ExtraTreeRegressor'',
       ''sklearn.tree._classes.DecisionTreeClassifier'', ''sklearn.tree._classes.ExtraTreeClassifier'']
   \<and> (\<forall>pre c post.
          model_type m # model_bases m = pre @ c # post
          \<and> set pre \<inter> set (regression_classes @ classification_classes) = {}
          \<and> c \<in> set regression_classes \<longrightarrow>
          build_tfdf_model m p fs = build_regression m p fs)
   \<and> (\<forall>pre c post.
          model_type m # model_bases m = pre @ c # post
          \<and> set pre \<inter> set (regression_classes @ classification_classes) = {}
          \<and> c \<in> set classification_classes \<longrightarrow>
          build_tfdf_model m p fs = build_classification m p fs)
   \<and> (set (model_type m # model_bases m) \<inter> set (regression_classes @ classification_classes) = {} \<longrightarrow>
         build_tfdf_model m p fs =
           Some (Inl (NotImplementedError
                   (''Can't build a TFDF model for <class '' @ [CHR 0x27] @ model_type m
                      @ [CHR 0x27] @ ''>'')), fs)
         \<and> map_option fst (convert m wp tmp fs) =
             Some (Inl (NotImplementedError
                   (''Can't build a TFDF model for <class '' @ [CHR 0x27] @ model_type m
                      @ [CHR 0x27] @ ''>''))))"
proof -
  have four: "regression_classes @ classification_classes =
      [''sklearn.tree._classes.DecisionTreeRegressor'', ''sklearn.tree._classes.ExtraTreeRegressor'',
       ''sklearn.tree._classes.DecisionTreeClassifier'', ''sklearn.tree._classes.ExtraTreeClassifier'']"
    by (simp add: regression_classes_def classification_classes_def)
  have reg: "build_tfdf_model m p fs = build_regression m p fs"
    if "model_type m # model_bases m = pre @ c # post"
      and "set pre \<inter> set (regression_classes @ classification_classes) = {}"
      and c: "c \<in> set regression_classes" for pre c post
  proof -
    from c have "c \<in> set (regression_classes @ classification_classes)" by simp
    from dispatch_class_first [OF that(1,2) this] c show ?thesis
      by (simp add: build_tfdf_model_def)
  qed
  have cls: "build_tfdf_model m p fs = build_classification m p fs"
    if "model_type m # model_bases m = pre @ c # post"
      and "set pre \<inter> set (regression_classes @ classification_classes) = {}"
      and c: "c \<in> set classification_classes" for pre c post
  proof -
    from c have "c \<in> set (regression_classes @ classification_classes)" by simp
    moreover from c have "c \<notin> set regression_classes"
      by (auto simp: regression_classes_def classification_classes_def)
    ultimately show ?thesis
      using dispatch_class_first [OF that(1,2)] by (simp add: build_tfdf_model_def)
  qed
  have none: "build_tfdf_model m p fs =
           Some (Inl (NotImplementedError
                   (''Can't build a TFDF model for <class '' @ [CHR 0x27] @ model_type m
                      @ [CHR 0x27] @ ''>'')), fs)
         \<and> map_option fst (convert m wp tmp fs) =
             Some (Inl (NotImplementedError
                   (''Can't build a TFDF model for <class '' @ [CHR 0x27] @ model_type m
                      @ [CHR 0x27] @ ''>'')))"
    if d: "set (model_type m # model_bases m) \<inter> set (regression_classes @ classification_classes) = {}"
  proof -
    have b: "build_tfdf_model m q fs' =
           Some (Inl (NotImplementedError
                   (''Can't build a TFDF model for <class '' @ [CHR 0x27] @ model_type m
                      @ [CHR 0x27] @ ''>'')), fs')" for q fs'
      by (simp add: build_tfdf_model_def dispatch_class_none [OF d] type_repr_def)
    then show ?thesis by (simp add: convert_def split: option.splits)
  qed
  from four reg cls none show ?thesis by blast
qed

theorem dispatch_follows_mro_witness:
  "model_type subclass_regressor # model_bases subclass_regressor =
      [''mypackage.MyTree''] @ ''sklearn.tree._classes.DecisionTreeRegressor''
        # [''sklearn.base.RegressorMixin'', ''sklearn.tree._classes.BaseDecisionTree'',
           ''sklearn.base.MultiOutputMixin'', ''sklearn.base.BaseEstimator'', ''object'']
   \<and> set [''mypackage.MyTree''] \<inter> set (regression_classes @ classification_classes) = {}
   \<and> ''sklearn.tree._classes.DecisionTreeRegressor'' \<in> set regression_classes
   \<and> build_tfdf_model subclass_regressor ''out'' Map.empty
       = build_regression subclass_regressor ''out'' Map.empty
   \<and> model_type example_classifier # model_bases example_classifier =
      [] @ ''sklearn.tree._classes.DecisionTreeClassifier''
        # [''sklearn.base.ClassifierMixin'', ''sklearn.tree._classes.BaseDecisionTree'',
           ''sklearn.base.MultiOutputMixin'', ''sklearn.base.BaseEstimator'', ''object'']
   \<and> ''sklearn.tree._classes.DecisionTreeClassifier'' \<in> set classification_classes
   \<and> build_tfdf_model example_classifier ''out'' Map.empty
       = build_classification example_classifier ''out'' Map.empty
   \<and> set (model_type linear_model # model_bases linear_model)
        \<inter> set (regression_classes @ classification_classes) = {}
   \<and> map_option fst (convert linear_model None ''tmp'' Map.empty) =
        Some (Inl (NotImplementedError
          ''Can't build a TFDF model for <class 'sklearn.linear_model._base.LinearRegression'>''))"
proof -
  have s1: "model_type subclass_regressor # model_bases subclass_regressor =
      [''mypackage.MyTree''] @ ''sklearn.tree._classes.DecisionTreeRegressor''
        # [''sklearn.base.RegressorMixin'', ''sklearn.tree._classes.BaseDecisionTree'',
           ''sklearn.base.MultiOutputMixin'', ''sklearn.base.BaseEstimator'', ''object'']"
    by (simp add: subclass_regressor_def)
  have s2: "set [''mypackage.MyTree''] \<inter> set (regression_classes @ classification_classes) = {}"
    by (simp add: regression_classes_def classification_classes_def)
  have s3: "''sklearn.tree._classes.DecisionTreeRegressor'' \<in> set regression_classes"
    by (simp add: regression_classes_def)
  have c1: "model_type example_classifier # model_bases example_classifier =
      [] @ ''sklearn.tree._classes.DecisionTreeClassifier''
        # [''sklearn.base.ClassifierMixin'', ''sklearn.tree._classes.BaseDecisionTree'',
           ''sklearn.base.MultiOutputMixin'', ''sklearn.base.BaseEstimator'', ''object'']"
    by (simp add: example_classifier_def)
  have c2: "set [] \<inter> set (regression_classes @ classification_classes) = {}" by simp
  have c3: "''sklearn.tree._classes.DecisionTreeClassifier'' \<in> set classification_classes"
    by (simp add: classification_classes_def)
  have l: "set (model_type linear_model # model_bases linear_model)
        \<inter> set (regression_classes @ classification_classes) = {}"
    by (simp add: linear_model_def regression_classes_def classification_classes_def)
  have n: "model_type linear_model = ''sklearn.linear_model._base.LinearRegression''"
    by (simp add: linear_model_def)
  have bs: "build_tfdf_model subclass_regressor ''out'' Map.empty
       = build_regression subclass_regressor ''out'' Map.empty"
    using dispatch_follows_mro [of subclass_regressor "''out''" Map.empty None "''tmp''"] s1 s2 s3
    by blast
  have bc: "build_tfdf_model example_classifier ''out'' Map.empty
       = build_classification example_classifier ''out'' Map.empty"
    using dispatch_follows_mro [of example_classifier "''out''" Map.empty None "''tmp''"] c1 c2 c3
    by blast
  have "map_option fst (convert linear_model None ''tmp'' Map.empty) =
        Some (Inl (NotImplementedError
          (''Can't build a TFDF model for <class '' @ [CHR 0x27] @ model_type linear_model
             @ [CHR 0x27] @ ''>'')))"
    using dispatch_follows_mro [of linear_model "''out''" Map.empty None "''tmp''"] l
    by blast
  then have bl: "map_option fst (convert linear_model None ''tmp'' Map.empty) =
        Some (Inl (NotImplementedError
          ''Can't build a TFDF model for <class 'sklearn.linear_model._base.LinearRegression'>''))"
    by (simp add: n)
  from s1 s2 s3 bs c1 c3 bc l bl show ?thesis by (intro conjI)
qed


section \<open>The signature adapter\<close>

lemma slice_columns_Inr:
  "slice_columns n ks = Inr cols \<Longrightarrow>
     map fst cols = ks
     \<and> list_all (\<lambda>(i, j). py_int i = Inr j \<and> - int n \<le> j \<and> j < int n) cols"
proof (induction ks arbitrary: cols)
  case Nil
  then show ?case by simp
next
  case (Cons k ks)
  from Cons.prems obtain j rest where
    j: "py_int k = Inr j" "- int n \<le> j" "j < int n"
    and rest: "slice_columns n ks = Inr rest" and cols: "cols = (k, j) # rest"
    by (auto split: sum.splits if_splits)
  from Cons.IH [OF rest] j cols show ?case by simp
qed

lemma slice_columns_succeeds:
  "\<forall>k \<in> set ks. \<exists>j. py_int k = Inr j \<and> - int n \<le> j \<and> j < int n
     \<Longrightarrow> \<exists>cols. slice_columns n ks = Inr cols"
  by (induction ks) auto

lemma feed_succeeds:
  "list_all (\<lambda>(i, j). - int (length x) \<le> j \<and> j < int (length x)) cols \<Longrightarrow>
     \<exists>kvs. feed x cols = Inr kvs"
proof (induction cols)
  case Nil
  then show ?case by simp
next
  case (Cons c cols)
  obtain i j where c: "c = (i, j)" by (cases c)
  with Cons.prems have "\<exists>v. py_getitem x j = Inr v" by (auto simp: py_getitem_def)
  moreover from Cons obtain kvs where "feed x cols = Inr kvs" by auto
  ultimately show ?case using c by auto
qed

lemma feed_Inr:
  "feed x cols = Inr kvs \<Longrightarrow>
     list_all2 (\<lambda>(i, j) (i', v). i' = i \<and> py_getitem x j = Inr v) cols kvs"
proof (induction cols arbitrary: kvs)
  case Nil
  then show ?case by simp
next
  case (Cons c cols)
  obtain i j where c: "c = (i, j)" by (cases c)
  with Cons.prems obtain v rest where
    "py_getitem x j = Inr v" "feed x cols = Inr rest" "kvs = (i, v) # rest"
    by (auto split: sum.splits)
  with Cons.IH [of rest] c show ?case by simp
qed

lemma feed_lookup:
  assumes f: "feed x cols = Inr kvs"
    and p: "list_all (\<lambda>(i, j). py_int i = Inr j) cols"
  shows "dom (map_of kvs) = fst ` set cols"
    and "i \<in> fst ` set cols \<Longrightarrow>
           \<exists>j v. py_int i = Inr j \<and> py_getitem x j = Inr v \<and> map_of kvs i = Some v"
proof -
  note r = feed_Inr [OF f]
  have fst: "map fst kvs = map fst cols"
    using r by (induction cols kvs rule: list_all2_induct) auto
  then have "fst ` set kvs = fst ` set cols" by (metis set_map)
  then show d: "dom (map_of kvs) = fst ` set cols" by (simp add: dom_map_of_conv_image_fst)
  assume "i \<in> fst ` set cols"
  with d obtain v where v: "map_of kvs i = Some v" by blast
  then have "(i, v) \<in> set kvs" by (rule map_of_SomeD)
  then obtain k where k: "k < length kvs" "kvs ! k = (i, v)" by (auto simp: in_set_conv_nth)
  from r k obtain j where j: "cols ! k = (i, j)" "py_getitem x j = Inr v" "k < length cols"
    by (cases "cols ! k") (auto simp: list_all2_conv_all_nth)
  from p j have "py_int i = Inr j"
    by (auto simp: list_all_length)
  with j v show "\<exists>j v. py_int i = Inr j \<and> py_getitem x j = Inr v \<and> map_of kvs i = Some v"
    by blast
qed

lemma feed_cong:
  "\<forall>(i, j) \<in> set cols. py_getitem x j = py_getitem x' j \<Longrightarrow> feed x cols = feed x' cols"
  by (induction cols) (auto split: sum.splits)

lemma py_getitem_update:
  assumes "c < length x" and "j \<noteq> int c" and "j \<noteq> int c - int (length x)"
  shows "py_getitem (x[c := v]) j = py_getitem x j"
  using assms by (auto simp: py_getitem_def nat_eq_iff)

lemma convert_Inr:
  assumes "convert m wp tmp fs = Some (Inr km, fs')"
  shows "\<exists>n mdl cols p fs1 fs2.
           n_features_in m = Some n
         \<and> build_tfdf_model m p fs1 = Some (Inr mdl, fs2)
         \<and> slice_columns n (serving_signature mdl) = Inr cols
         \<and> km = KerasModel n cols mdl"
  using assms
  by (auto simp: convert_def Let_def split: option.splits sum.splits if_splits prod.splits)

lemma build_tfdf_model_Inr:
  assumes "build_tfdf_model m p fs = Some (Inr mdl, fs2)"
  shows "\<exists>obj t. mdl = TFDFModel obj t \<and> convert_sklearn_tree_to_tfdf_pytree m = Some (Inr t)"
  using assms
  by (auto simp: build_tfdf_model_def build_regression_def build_classification_def
        load_model_def cart_builder_close_def Let_def
      split: option.splits sum.splits if_splits)


lemma convert_node_used_features:
  "convert_sklearn_node_to_tfdf_node i nodes = Some y \<Longrightarrow>
     (i = - 1 \<longrightarrow> y = Inr None)
     \<and> (\<forall>t. y = Inr (Some t) \<longrightarrow>
           (\<forall>k \<in> set (used_features t).
               \<exists>nd \<in> set nodes. right_child nd \<noteq> - 1 \<and> k = str_int (feature nd)))"
proof (induction rule: convert_node_partial_induct)
  case (step conv i nodes y)
  show ?case
  proof (intro conjI allI impI)
    assume "i = - 1"
    with step.hyps show "y = Inr None" by simp
  next
    fix t assume y: "y = Inr (Some t)"
    from step.hyps y have ne: "i \<noteq> - 1" by (auto split: if_splits)
    with step.hyps y obtain nd where nd: "py_getitem nodes i = Inr nd"
      by (cases "py_getitem nodes i") auto
    with step.hyps ne obtain r1 where r1: "conv (left_child nd) nodes = Some r1"
      by (auto simp: Option.bind_eq_Some_conv)
    with step.hyps ne nd y obtain neg where r1n: "r1 = Inr neg" by (cases r1) auto
    with step.hyps ne nd r1 obtain r2 where r2: "conv (right_child nd) nodes = Some r2"
      by (auto simp: Option.bind_eq_Some_conv)
    with step.hyps ne nd r1 r1n y obtain pos where r2p: "r2 = Inr pos" by (cases r2) auto
    from r1 r1n have neg: "conv (left_child nd) nodes = Some (Inr neg)" by simp
    from r2 r2p have pos: "conv (right_child nd) nodes = Some (Inr pos)" by simp
    from step.hyps ne nd neg pos y
    have t: "t = (if pos \<noteq> None then
                    NonLeafNode
                      (NumericalHigherThanCondition
                         \<lparr>name = str_int (feature nd), col_type = NUMERICAL, col_idx = feature nd\<rparr>
                         (threshold nd) False)
                      pos neg
                  else LeafNode (node_value nd))"
      by auto
    let ?Q = "\<lambda>k. \<exists>nd \<in> set nodes. right_child nd \<noteq> - 1 \<and> k = str_int (feature nd)"
    from step.IH [OF neg] have n: "\<And>tn. neg = Some tn \<Longrightarrow> \<forall>k \<in> set (used_features tn). ?Q k"
      by simp
    from step.IH [OF pos] have p: "\<And>tp. pos = Some tp \<Longrightarrow> \<forall>k \<in> set (used_features tp). ?Q k"
      and s: "right_child nd = - 1 \<Longrightarrow> pos = None"
      by simp_all
    from py_getitem_mem [OF nd] have mem: "nd \<in> set nodes" .
    show "\<forall>k \<in> set (used_features t). ?Q k"
    proof (cases pos)
      case None
      with t show ?thesis by simp
    next
      case (Some tp)
      with s have "right_child nd \<noteq> - 1" by auto
      with mem have "?Q (str_int (feature nd))" by blast
      with t Some p [OF Some] n show ?thesis by (cases neg) auto
    qed
  qed
qed

lemma make_nodes_fields:
  assumes "make_nodes tt nvs = Inr nodes" and "nd \<in> set nodes"
  shows "sk_node.truncate nd \<in> fst ` set nvs"
proof -
  from assms(2) obtain i where i: "i < length nodes" "nd = nodes ! i"
    by (auto simp: in_set_conv_nth)
  from make_nodes_Inr [OF assms(1)] i have
    "length nvs = length nodes" "sk_node.truncate nd = fst (nvs ! i)"
    by (simp_all add: list_all2_conv_all_nth)
  with i(1) show ?thesis using nth_mem [of i nvs] by auto
qed

lemma pytree_Inr:
  assumes "convert_sklearn_tree_to_tfdf_pytree m = Some (Inr t)"
  shows "\<exists>st tt nodes r.
           tree_attr m = Some st \<and> get_sklearn_tree_task_type m = Inr tt
         \<and> make_nodes tt (zip (state_nodes st) (state_values st)) = Inr nodes
         \<and> convert_sklearn_node_to_tfdf_node 0 nodes = Some (Inr r) \<and> t = Tree r"
proof -
  from assms obtain st tt nodes z where
    a: "tree_attr m = Some st" "get_sklearn_tree_task_type m = Inr tt"
       "make_nodes tt (zip (state_nodes st) (state_values st)) = Inr nodes"
    and z: "convert_sklearn_node_to_tfdf_node 0 nodes = Some z" "map_sum id Tree z = Inr t"
    by (auto simp: convert_sklearn_tree_to_tfdf_pytree_def split: option.splits sum.splits)
  from z(2) obtain r where "z = Inr r" "t = Tree r" by (cases z) auto
  with a z(1) show ?thesis by blast
qed

lemma signature_names_are_split_features:
  assumes b: "build_tfdf_model m p fs = Some (Inr mdl, fs2)" and st: "tree_attr m = Some st"
    and k: "k \<in> set (serving_signature mdl)"
  shows "\<exists>nd \<in> set (state_nodes st). right_child nd \<noteq> - 1 \<and> k = str_int (feature nd)"
proof -
  from build_tfdf_model_Inr [OF b] obtain obj t where
    mdl: "mdl = TFDFModel obj t" and t: "convert_sklearn_tree_to_tfdf_pytree m = Some (Inr t)"
    by blast
  from pytree_Inr [OF t] st obtain tt nodes r where
    nodes: "make_nodes tt (zip (state_nodes st) (state_values st)) = Inr nodes"
    and r: "convert_sklearn_node_to_tfdf_node 0 nodes = Some (Inr r)" and tr: "t = Tree r"
    by auto
  from k mdl tr obtain rt where rt: "r = Some rt" and ku: "k \<in> set (used_features rt)"
    by (cases r) (auto simp: serving_signature_def)
  from convert_node_used_features [OF r] rt ku obtain nd where
    nd: "nd \<in> set nodes" "right_child nd \<noteq> - 1" "k = str_int (feature nd)" by auto
  from make_nodes_fields [OF nodes nd(1)]
  have "sk_node.truncate nd \<in> set (state_nodes st)"
    by (auto dest: set_zip_leftD)
  moreover have "right_child (sk_node.truncate nd) = right_child nd"
    "feature (sk_node.truncate nd) = feature nd"
    by (simp_all add: sk_node.defs)
  ultimately show ?thesis using nd by metis
qed

text \<open>
  C8. When \<^verbatim>\<open>convert\<close> returns a model: its input width is the estimator's
  declared number of features, and a row of any other width is rejected. On a row of
  that width the inner model is called with a dictionary whose keys are exactly the
  identifiers of the inner model's signature, each mapped to the column found by
  parsing the identifier as an integer. Hence a column that is the split feature of
  no decision node of the source tree can be changed at will: the output stays the
  same. (A negative index would name a column from the end, so both readings of a
  feature index are excluded.)
\<close>

theorem wrapped_model_input:
  assumes "convert m wp tmp fs = Some (Inr km, fs')"
  shows "n_features_in m = Some (input_width km)
     \<and> (\<forall>x. length x \<noteq> input_width km \<longrightarrow> keras_call km x = Inl IncompatibleShape)
     \<and> (\<forall>x. length x = input_width km \<longrightarrow>
           (\<exists>example.
               keras_call km x = tfdf_call (inner_model km) example
             \<and> dom example = set (serving_signature (inner_model km))
             \<and> (\<forall>i \<in> set (serving_signature (inner_model km)).
                   \<exists>j v. py_int i = Inr j \<and> py_getitem x j = Inr v \<and> example i = Some v)))
     \<and> (\<forall>st x c v.
           tree_attr m = Some st \<and> length x = input_width km \<and> c < length x
           \<and> (\<forall>nd \<in> set (state_nodes st).
                 right_child nd \<noteq> - 1 \<longrightarrow>
                   feature nd \<noteq> int c \<and> feature nd \<noteq> int c - int (length x))
           \<longrightarrow> keras_call km (x[c := v]) = keras_call km x)"
proof -
  from convert_Inr [OF assms] obtain n mdl cols p fs1 fs2 where
    n: "n_features_in m = Some n"
    and b: "build_tfdf_model m p fs1 = Some (Inr mdl, fs2)"
    and sl: "slice_columns n (serving_signature mdl) = Inr cols"
    and km: "km = KerasModel n cols mdl"
    by blast
  from slice_columns_Inr [OF sl] have keys: "map fst cols = serving_signature mdl"
    and cols: "list_all (\<lambda>(i, j). py_int i = Inr j \<and> - int n \<le> j \<and> j < int n) cols"
    by simp_all
  from cols have parsed: "list_all (\<lambda>(i, j). py_int i = Inr j) cols"
    and range: "list_all (\<lambda>(i, j). - int n \<le> j \<and> j < int n) cols"
    by (auto simp: list_all_iff)
  from keys have keyset: "fst ` set cols = set (serving_signature mdl)"
    by (metis set_map)
  have width: "n_features_in m = Some (input_width km)" using n km by simp
  have shape: "keras_call km x = Inl IncompatibleShape" if "length x \<noteq> input_width km" for x
    using that by (simp add: keras_call_def)
  have fed: "\<exists>example.
               keras_call km x = tfdf_call (inner_model km) example
             \<and> dom example = set (serving_signature (inner_model km))
             \<and> (\<forall>i \<in> set (serving_signature (inner_model km)).
                   \<exists>j v. py_int i = Inr j \<and> py_getitem x j = Inr v \<and> example i = Some v)"
    if len: "length x = input_width km" for x
  proof -
    from len km have "length x = n" by simp
    with range feed_succeeds [of x cols] obtain kvs where f: "feed x cols = Inr kvs" by auto
    with len km have "keras_call km x = tfdf_call (inner_model km) (map_of kvs)"
      by (simp add: keras_call_def)
    moreover from feed_lookup(1) [OF f parsed] keyset km
    have "dom (map_of kvs) = set (serving_signature (inner_model km))" by simp
    moreover from feed_lookup(2) [OF f parsed] keyset km
    have "\<forall>i \<in> set (serving_signature (inner_model km)).
            \<exists>j v. py_int i = Inr j \<and> py_getitem x j = Inr v \<and> map_of kvs i = Some v"
      by simp
    ultimately show ?thesis by blast
  qed
  have unused: "keras_call km (x[c := v]) = keras_call km x"
    if st: "tree_attr m = Some st" and len: "length x = input_width km" and c: "c < length x"
      and free: "\<forall>nd \<in> set (state_nodes st).
                 right_child nd \<noteq> - 1 \<longrightarrow>
                   feature nd \<noteq> int c \<and> feature nd \<noteq> int c - int (length x)"
    for st x c v
  proof -
    have "py_getitem (x[c := v]) j = py_getitem x j" if ij: "(i, j) \<in> set cols" for i j
    proof -
      from ij keyset have "i \<in> set (serving_signature mdl)" by force
      from signature_names_are_split_features [OF b st this] obtain nd where
        nd: "nd \<in> set (state_nodes st)" "right_child nd \<noteq> - 1" "i = str_int (feature nd)"
        by blast
      from ij parsed have "py_int i = Inr j" by (auto simp: list_all_iff)
      with nd(3) have "j = feature nd" by (simp add: py_int_str_int)
      with free nd have "j \<noteq> int c" "j \<noteq> int c - int (length x)" by auto
      with c show ?thesis by (simp add: py_getitem_update)
    qed
    then have "feed (x[c := v]) cols = feed x cols" by (intro feed_cong) auto
    then show ?thesis using km by (simp add: keras_call_def)
  qed
  from width shape fed unused show ?thesis by blast
qed

theorem wrapped_model_input_witness:
  "convert example_regressor None ''tmp'' Map.empty = Some (Inr example_keras_model, Map.empty)
   \<and> n_features_in example_regressor = Some 5
   \<and> input_width example_keras_model = 5
   \<and> keras_call example_keras_model [1, 9, 1, 9] = Inl IncompatibleShape
   \<and> list_all (\<lambda>nd. right_child nd = - 1 \<or> feature nd \<noteq> 1 \<and> feature nd \<noteq> 1 - 5)
        example_sk_nodes
   \<and> keras_call example_keras_model ([1, 9, 1, 9, 9][1 := 7])
       = keras_call example_keras_model [1, 9, 1, 9, 9]
   \<and> keras_call example_keras_model [1, 9, 1, 9, 9] = Inr (RegressionValue (7 / 4))"
proof -
  have a: "convert example_regressor None ''tmp'' Map.empty =
             Some (Inr example_keras_model, Map.empty)"
    by (simp add: example_regressor_convert_temporary)
  have st: "tree_attr example_regressor =
              Some \<lparr>state_nodes = example_sk_nodes,
                    state_values = [[[3 / 2]], [[1]], [[2]], [[7 / 4]], [[3]]]\<rparr>"
    by (simp add: example_regressor_def)
  have w: "input_width example_keras_model = 5" by (simp add: example_keras_model_def)
  have free: "list_all (\<lambda>nd. right_child nd = - 1 \<or> feature nd \<noteq> 1 \<and> feature nd \<noteq> 1 - 5)
        example_sk_nodes"
    by (simp add: example_sk_nodes_def)
  note t = wrapped_model_input [OF a]
  from t w have n: "n_features_in example_regressor = Some 5" by simp
  from t w have s: "keras_call example_keras_model [1, 9, 1, 9] = Inl IncompatibleShape"
    by simp
  from t have "tree_attr example_regressor =
                 Some \<lparr>state_nodes = example_sk_nodes,
                       state_values = [[[3 / 2]], [[1]], [[2]], [[7 / 4]], [[3]]]\<rparr>
           \<and> length [1, 9, 1, 9, 9 :: rat] = input_width example_keras_model
           \<and> 1 < length [1, 9, 1, 9, 9 :: rat]
           \<and> (\<forall>nd \<in> set (state_nodes \<lparr>state_nodes = example_sk_nodes,
                       state_values = [[[3 / 2]], [[1]], [[2]], [[7 / 4]], [[3]]]\<rparr>).
                 right_child nd \<noteq> - 1 \<longrightarrow>
                   feature nd \<noteq> int 1 \<and> feature nd \<noteq> int 1 - int (length [1, 9, 1, 9, 9 :: rat]))
           \<longrightarrow> keras_call example_keras_model ([1, 9, 1, 9, 9][1 := 7])
                 = keras_call example_keras_model [1, 9, 1, 9, 9]"
    by blast
  with st w free have u: "keras_call example_keras_model ([1, 9, 1, 9, 9][1 := 7])
       = keras_call example_keras_model [1, 9, 1, 9, 9]"
    by (simp add: list_all_iff example_sk_nodes_def)
  have v: "keras_call example_keras_model [1, 9, 1, 9, 9] = Inr (RegressionValue (7 / 4))"
    by code_simp
  from a n w s free u v show ?thesis by (intro conjI)
qed



section \<open>Equivalence of the converted model and the source estimator\<close>

lemma str_int_inject:
  assumes "str_int a = str_int b"
  shows "a = b"
proof -
  have "(Inr a :: py_error + int) = py_int (str_int a)" by (simp add: py_int_str_int)
  also have "\<dots> = py_int (str_int b)" by (simp only: assms)
  also have "\<dots> = Inr b" by (simp add: py_int_str_int)
  finally show ?thesis by simp
qed

lemma make_value_fitted:
  assumes "tv \<noteq> []" and "hd tv \<noteq> []" and "cls \<longrightarrow> 0 < sum_list (hd tv)"
  shows "make_value (if cls then SINGLE_LABEL_CLASSIFICATION else SCALAR_REGRESSION) tv
           = sklearn_leaf_value cls tv"
    and "\<exists>v. sklearn_leaf_value cls tv = Inr v"
proof -
  from assms(1) obtain row rest where tv: "tv = row # rest" by (cases tv) auto
  with assms(2) obtain c cs where row: "row = c # cs" by (cases row) auto
  from tv row assms(3)
  show "make_value (if cls then SINGLE_LABEL_CLASSIFICATION else SCALAR_REGRESSION) tv
           = sklearn_leaf_value cls tv"
    by (auto simp: make_value_def sklearn_leaf_value_def py_getitem_def np_divide_def)
  from tv row show "\<exists>v. sklearn_leaf_value cls tv = Inr v"
    by (simp add: sklearn_leaf_value_def py_getitem_def)
qed

lemma keras_call_fed:
  assumes cols: "list_all (\<lambda>(i, j). py_int i = Inr j \<and> - int n \<le> j \<and> j < int n) cols"
    and len: "length x = n"
  shows "\<exists>example.
           keras_call (KerasModel n cols mdl) x = tfdf_call mdl example
         \<and> dom example = fst ` set cols
         \<and> (\<forall>i \<in> fst ` set cols.
               \<exists>j v. py_int i = Inr j \<and> py_getitem x j = Inr v \<and> example i = Some v)"
proof -
  from cols have parsed: "list_all (\<lambda>(i, j). py_int i = Inr j) cols"
    and range: "list_all (\<lambda>(i, j). - int n \<le> j \<and> j < int n) cols"
    by (auto simp: list_all_iff)
  from len range feed_succeeds [of x cols] obtain kvs where f: "feed x cols = Inr kvs" by auto
  with len have "keras_call (KerasModel n cols mdl) x = tfdf_call mdl (map_of kvs)"
    by (simp add: keras_call_def)
  with feed_lookup [OF f parsed] show ?thesis by blast
qed

text \<open>
  For every fitted single-output estimator of a supported class (regression or
  single-label classification) whose tree has a split at its root, and every row of
  the declared width, \<^verbatim>\<open>convert\<close> returns a model, and calling that model on
  the row gives the very value that the source estimator predicts by flat-array
  routing: the same scalar for regression, the same probability vector (and so the
  same arg-max class) for classification. The converted tree goes to the positive
  child exactly when the feature value is strictly greater than the threshold, the
  source tree to \<open>left_child\<close> exactly when it is not. Arithmetic is exact;
  floating-point tolerance is outside the model.
\<close>

lemma split_tree_conversion_preserves_predictions:
  assumes fit: "fitted_estimator m" and split: "root_is_split m"
    and width: "n_features_in m = Some (length x)"
  shows "\<exists>km fs' v. convert m wp tmp fs = Some (Inr km, fs')
            \<and> keras_call km x = Inr v \<and> sklearn_predict m x = Some (Inr v)"
proof -
  define cls where "cls = (n_classes m \<noteq> None)"
  define tt where "tt = (if cls then SINGLE_LABEL_CLASSIFICATION else SCALAR_REGRESSION)"
  define n where "n = length x"
  from fit width obtain st where st: "tree_attr m = Some st"
    and fts: "fitted_tree_state n cls st"
    and out: "n_outputs m = Some 1"
    by (auto simp: fitted_estimator_def cls_def n_def split: option.splits)
  let ?ns = "state_nodes st" and ?vs = "state_values st"
  from fts have ne: "?ns \<noteq> []" and len: "length ?vs = length ?ns" and tree: "is_tree ?ns"
    and shape: "\<forall>nd \<in> set ?ns. (left_child nd = - 1 \<longleftrightarrow> right_child nd = - 1)
                  \<and> (left_child nd \<noteq> - 1 \<longrightarrow> 0 \<le> feature nd \<and> feature nd < int n)"
    and vals: "\<forall>tv \<in> set ?vs. tv \<noteq> [] \<and> hd tv \<noteq> [] \<and> (cls \<longrightarrow> 0 < sum_list (hd tv))"
    by (simp_all add: fitted_tree_state_def)
  from out have task: "get_sklearn_tree_task_type m = Inr tt"
    by (simp add: get_sklearn_tree_task_type_def tt_def cls_def)
  \<comment> \<open>the node dictionaries\<close>
  have "\<forall>nv \<in> set (zip ?ns ?vs). \<exists>v. make_value tt (snd nv) = Inr v"
  proof
    fix nv assume "nv \<in> set (zip ?ns ?vs)"
    then have "snd nv \<in> set ?vs"
      using set_zip_rightD [of "fst nv" "snd nv" ?ns ?vs] by simp
    with vals have "snd nv \<noteq> []" "hd (snd nv) \<noteq> []" "cls \<longrightarrow> 0 < sum_list (hd (snd nv))"
      by blast+
    from make_value_fitted [OF this] show "\<exists>v. make_value tt (snd nv) = Inr v"
      by (simp add: tt_def)
  qed
  from make_nodes_succeeds [OF this] obtain nodes where
    nodes: "make_nodes tt (zip ?ns ?vs) = Inr nodes" by blast
  note rel = make_nodes_Inr [OF nodes]
  from rel len have nlen: "length nodes = length ?ns"
    by (simp add: list_all2_conv_all_nth)
  from rel len have same: "\<forall>i<length nodes. sk_node.truncate (nodes ! i) = ?ns ! i"
    by (simp add: list_all2_conv_all_nth)
  from rel len have nval: "\<forall>i<length nodes. make_value tt (?vs ! i) = Inr (node_value (nodes ! i))"
    by (simp add: list_all2_conv_all_nth)
  have fields: "left_child (nodes ! i) = left_child (?ns ! i)"
      "right_child (nodes ! i) = right_child (?ns ! i)"
      "feature (nodes ! i) = feature (?ns ! i)" if "i < length nodes" for i
  proof -
    from same that have e: "?ns ! i = sk_node.truncate (nodes ! i)" by simp
    show "left_child (nodes ! i) = left_child (?ns ! i)"
      "right_child (nodes ! i) = right_child (?ns ! i)"
      "feature (nodes ! i) = feature (?ns ! i)"
      unfolding e by (simp_all add: sk_node.defs)
  qed
  from fields nlen have "is_tree nodes \<longleftrightarrow> is_tree ?ns"
    by (intro is_tree_cong) simp_all
  with tree have ntree: "is_tree nodes" by simp
  have nshape: "\<forall>nd \<in> set nodes. (left_child nd = - 1 \<longleftrightarrow> right_child nd = - 1)
                  \<and> (left_child nd \<noteq> - 1 \<longrightarrow> 0 \<le> feature nd \<and> feature nd < int (length x))"
  proof
    fix nd assume "nd \<in> set nodes"
    then obtain i where i: "i < length nodes" "nd = nodes ! i" by (auto simp: in_set_conv_nth)
    with nlen have "?ns ! i \<in> set ?ns" by simp
    with shape fields [OF i(1)] i(2) show "(left_child nd = - 1 \<longleftrightarrow> right_child nd = - 1)
                  \<and> (left_child nd \<noteq> - 1 \<longrightarrow> 0 \<le> feature nd \<and> feature nd < int (length x))"
      by (simp add: n_def)
  qed
  from ne nlen have v0: "valid_index nodes 0" by (simp add: valid_index_def)
  \<comment> \<open>routing\<close>
  from routing_agrees [OF ntree nlen [symmetric] same nshape v0]
  obtain t leaf where
    conv: "convert_sklearn_node_to_tfdf_node 0 nodes = Some (Inr (Some t))"
    and app: "sklearn_apply ?ns x 0 = Some (Inr leaf)"
    and vleaf: "valid_index nodes leaf"
    and names: "\<forall>k \<in> set (used_features t). \<exists>f. k = str_int f \<and> 0 \<le> f \<and> f < int (length x)"
    and rt: "\<forall>ex. (\<forall>f. str_int f \<in> set (used_features t) \<longrightarrow> ex (str_int f) = Some (x ! nat f))
                  \<longrightarrow> route ex t = Inr (node_value (nodes ! nat leaf))"
    by blast
  from st task nodes conv have py: "convert_sklearn_tree_to_tfdf_pytree m = Some (Inr (Tree (Some t)))"
    by (simp add: convert_sklearn_tree_to_tfdf_pytree_def)
  \<comment> \<open>the root is a decision node\<close>
  have used: "used_features t \<noteq> []"
  proof -
    from split st ne have "left_child (?ns ! 0) \<noteq> - 1"
      by (cases ?ns) (simp_all add: root_is_split_def)
    moreover from ne nlen have z: "0 < length nodes" by simp
    ultimately have l: "left_child (nodes ! 0) \<noteq> - 1" using fields(1) [OF z] by simp
    from z have "nodes ! 0 \<in> set nodes" by simp
    with nshape l have r: "right_child (nodes ! 0) \<noteq> - 1" by blast
    from convert_node_step [OF ntree v0] obtain neg pos where
      "pos = None \<longleftrightarrow> right_child (nodes ! nat 0) = - 1"
      "convert_sklearn_node_to_tfdf_node 0 nodes =
         Some (Inr (Some
           (if pos \<noteq> None then
              NonLeafNode
                (NumericalHigherThanCondition
                   \<lparr>name = str_int (feature (nodes ! nat 0)), col_type = NUMERICAL,
                    col_idx = feature (nodes ! nat 0)\<rparr>
                   (threshold (nodes ! nat 0)) False)
                pos neg
            else LeafNode (node_value (nodes ! nat 0)))))"
      by blast
    with r conv show ?thesis by auto
  qed
  \<comment> \<open>model assembly\<close>
  have "\<exists>obj. \<forall>p fs. build_tfdf_model m p fs =
          Some (Inr (TFDFModel obj (Tree (Some t))), cart_builder_close p obj (Tree (Some t)) fs)"
  proof -
    from fit obtain c where c: "dispatch_class m = Some c"
      and cc: "if c \<in> set regression_classes then n_classes m = None
               else n_classes m \<noteq> None \<and> classes m \<noteq> None"
      by (auto simp: fitted_estimator_def split: option.splits)
    show ?thesis
    proof (cases "c \<in> set regression_classes")
      case True
      with c py have "\<forall>p fs. build_tfdf_model m p fs =
          Some (Inr (TFDFModel (RegressionObjective ''label'') (Tree (Some t))),
                cart_builder_close p (RegressionObjective ''label'') (Tree (Some t)) fs)"
        by (simp add: build_tfdf_model_def build_regression_def load_after_close)
      then show ?thesis by blast
    next
      case False
      with cc obtain cs where "classes m = Some cs" by auto
      with False c py have "\<forall>p fs. build_tfdf_model m p fs =
          Some (Inr (TFDFModel (ClassificationObjective ''label'' (map str_label cs)) (Tree (Some t))),
                cart_builder_close p (ClassificationObjective ''label'' (map str_label cs))
                  (Tree (Some t)) fs)"
        by (simp add: build_tfdf_model_def build_classification_def load_after_close)
      then show ?thesis by blast
    qed
  qed
  then obtain obj where build: "\<And>p fs. build_tfdf_model m p fs =
          Some (Inr (TFDFModel obj (Tree (Some t))), cart_builder_close p obj (Tree (Some t)) fs)"
    by blast
  define mdl where "mdl = TFDFModel obj (Tree (Some t))"
  have sig: "serving_signature mdl = remdups (used_features t)"
    by (simp add: serving_signature_def mdl_def)
  have "\<forall>k \<in> set (serving_signature mdl). \<exists>j. py_int k = Inr j \<and> - int n \<le> j \<and> j < int n"
  proof
    fix k assume "k \<in> set (serving_signature mdl)"
    with sig names obtain f where "k = str_int f" "0 \<le> f" "f < int (length x)" by auto
    then show "\<exists>j. py_int k = Inr j \<and> - int n \<le> j \<and> j < int n"
      by (auto simp: py_int_str_int n_def)
  qed
  from slice_columns_succeeds [OF this] obtain cols where
    cols: "slice_columns n (serving_signature mdl) = Inr cols" by blast
  define km where "km = KerasModel n cols mdl"
  from slice_columns_Inr [OF cols] have keys: "map fst cols = serving_signature mdl"
    and parsed: "list_all (\<lambda>(i, j). py_int i = Inr j \<and> - int n \<le> j \<and> j < int n) cols"
    by simp_all
  from keys sig used have cne: "cols \<noteq> []" by auto
  from width build cols cne have "\<exists>fs'. convert m wp tmp fs = Some (Inr km, fs')"
    by (auto simp: convert_def km_def mdl_def n_def split: option.splits
             simp del: slice_columns.simps)
  then obtain fs' where cv: "convert m wp tmp fs = Some (Inr km, fs')" by blast
  \<comment> \<open>the call\<close>
  from keys sig have keyset: "fst ` set cols = set (used_features t)"
    by (metis set_map set_remdups)
  from keras_call_fed [OF parsed, of x mdl] obtain example where
    call: "keras_call km x = tfdf_call mdl example"
    and ex: "\<forall>i \<in> set (used_features t).
               \<exists>j v. py_int i = Inr j \<and> py_getitem x j = Inr v \<and> example i = Some v"
    by (auto simp: km_def n_def keyset)
  have "example (str_int f) = Some (x ! nat f)" if f: "str_int f \<in> set (used_features t)" for f
  proof -
    from ex f obtain v where v: "py_getitem x f = Inr v" "example (str_int f) = Some v"
      by (auto simp: py_int_str_int)
    from names f obtain f' where "str_int f = str_int f'" "0 \<le> f'" "f' < int (length x)"
      by blast
    moreover from this(1) have "f = f'" by (rule str_int_inject)
    ultimately have "py_getitem x f = Inr (x ! nat f)" by (simp add: py_getitem_def)
    with v show ?thesis by simp
  qed
  with rt have "route example t = Inr (node_value (nodes ! nat leaf))" by blast
  with call have kc: "keras_call km x = Inr (node_value (nodes ! nat leaf))"
    by (simp add: tfdf_call_def mdl_def)
  \<comment> \<open>the source estimator\<close>
  from vleaf nlen len have lv: "0 \<le> leaf" "nat leaf < length nodes" "nat leaf < length ?vs"
    unfolding valid_index_def by linarith+
  then have getv: "py_getitem ?vs leaf = Inr (?vs ! nat leaf)"
    by (simp add: py_getitem_def)
  from lv have "?vs ! nat leaf \<in> set ?vs" by simp
  with vals have "?vs ! nat leaf \<noteq> []" "hd (?vs ! nat leaf) \<noteq> []"
    "cls \<longrightarrow> 0 < sum_list (hd (?vs ! nat leaf))" by blast+
  from make_value_fitted(1) [OF this] nval lv(2)
  have "sklearn_leaf_value cls (?vs ! nat leaf) = Inr (node_value (nodes ! nat leaf))"
    by (simp add: tt_def)
  with st app getv have "sklearn_predict m x = Some (Inr (node_value (nodes ! nat leaf)))"
    by (simp add: sklearn_predict_def cls_def)
  with cv kc show ?thesis by blast
qed

lemma example_regressor_fitted: "fitted_estimator example_regressor"
proof -
  have "dispatch_class example_regressor = Some ''sklearn.tree._classes.DecisionTreeRegressor''"
    by (simp add: dispatch_class_def example_regressor_def regression_classes_def)
  moreover have "fitted_tree_state 5 False
      \<lparr>state_nodes = example_sk_nodes,
       state_values = [[[3 / 2]], [[1]], [[2]], [[7 / 4]], [[3]]]\<rparr>"
    by (simp add: fitted_tree_state_def example_sk_nodes_is_tree)
       (simp add: example_sk_nodes_def)
  ultimately show ?thesis
    by (simp add: fitted_estimator_def example_regressor_def regression_classes_def)
qed

lemma example_classifier_fitted: "fitted_estimator example_classifier"
proof -
  have "dispatch_class example_classifier = Some ''sklearn.tree._classes.DecisionTreeClassifier''"
    by (simp add: dispatch_class_def example_classifier_def regression_classes_def
        classification_classes_def)
  moreover have "fitted_tree_state 5 True
      \<lparr>state_nodes = example_sk_nodes,
       state_values = [[[4, 4]], [[3, 1]], [[1, 3]], [[1, 0]], [[0, 3]]]\<rparr>"
    by (simp add: fitted_tree_state_def example_sk_nodes_is_tree)
       (simp add: example_sk_nodes_def)
  ultimately show ?thesis
    by (simp add: fitted_estimator_def example_classifier_def regression_classes_def)
qed

lemma split_tree_conversion_examples:
  "fitted_estimator example_regressor
   \<and> n_features_in example_regressor = Some (length [2 / 5, 9, 1, 9, 9 :: rat])
   \<and> convert example_regressor None ''tmp'' Map.empty = Some (Inr example_keras_model, Map.empty)
   \<and> keras_call example_keras_model [2 / 5, 9, 1, 9, 9] = Inr (RegressionValue 1)
   \<and> sklearn_predict example_regressor [2 / 5, 9, 1, 9, 9] = Some (Inr (RegressionValue 1))
   \<and> keras_call example_keras_model [3 / 5, 9, 3 / 2, 9, 9] = Inr (RegressionValue (7 / 4))
   \<and> sklearn_predict example_regressor [3 / 5, 9, 3 / 2, 9, 9]
       = Some (Inr (RegressionValue (7 / 4)))
   \<and> fitted_estimator example_classifier
   \<and> (\<exists>km fs' v. convert example_classifier None ''tmp'' Map.empty = Some (Inr km, fs')
          \<and> keras_call km [3 / 5, 9, 2, 9, 9] = Inr v
          \<and> sklearn_predict example_classifier [3 / 5, 9, 2, 9, 9] = Some (Inr v)
          \<and> v = ProbabilityValue [Finite 0, Finite 1])"
proof -
  have w: "n_features_in example_regressor = Some (length [2 / 5, 9, 1, 9, 9 :: rat])"
    "n_features_in example_regressor = Some (length [3 / 5, 9, 3 / 2, 9, 9 :: rat])"
    by (simp_all add: example_regressor_def)
  have rs: "root_is_split example_regressor"
    by (simp add: root_is_split_def example_regressor_def example_sk_nodes_def)
  have cs: "root_is_split example_classifier"
    by (simp add: root_is_split_def example_classifier_def example_sk_nodes_def)
  have wc: "n_features_in example_classifier = Some (length [3 / 5, 9, 2, 9, 9 :: rat])"
    by (simp add: example_classifier_def)
  have a: "convert example_regressor None ''tmp'' Map.empty =
             Some (Inr example_keras_model, Map.empty)"
    by (simp add: example_regressor_convert_temporary)
  have s1: "sklearn_predict example_regressor [2 / 5, 9, 1, 9, 9] = Some (Inr (RegressionValue 1))"
    by code_simp
  have s2: "sklearn_predict example_regressor [3 / 5, 9, 3 / 2, 9, 9]
       = Some (Inr (RegressionValue (7 / 4)))"
    by code_simp
  have s3: "sklearn_predict example_classifier [3 / 5, 9, 2, 9, 9]
       = Some (Inr (ProbabilityValue [Finite 0, Finite 1]))"
    by code_simp
  from split_tree_conversion_preserves_predictions [OF example_regressor_fitted rs w(1), of None "''tmp''" Map.empty]
    a s1
  have k1: "keras_call example_keras_model [2 / 5, 9, 1, 9, 9] = Inr (RegressionValue 1)"
    by auto
  from split_tree_conversion_preserves_predictions [OF example_regressor_fitted rs w(2), of None "''tmp''" Map.empty]
    a s2
  have k2: "keras_call example_keras_model [3 / 5, 9, 3 / 2, 9, 9] = Inr (RegressionValue (7 / 4))"
    by auto
  from split_tree_conversion_preserves_predictions [OF example_classifier_fitted cs wc, of None "''tmp''" Map.empty]
    s3
  have k3: "\<exists>km fs' v. convert example_classifier None ''tmp'' Map.empty = Some (Inr km, fs')
          \<and> keras_call km [3 / 5, 9, 2, 9, 9] = Inr v
          \<and> sklearn_predict example_classifier [3 / 5, 9, 2, 9, 9] = Some (Inr v)
          \<and> v = ProbabilityValue [Finite 0, Finite 1]"
    by auto
  from example_regressor_fitted w(1) a k1 s1 k2 s2 example_classifier_fitted k3
  show ?thesis by (intro conjI)
qed

lemma leaf_regressor_fitted: "fitted_estimator leaf_regressor"
proof -
  have "dispatch_class leaf_regressor = Some ''sklearn.tree._classes.DecisionTreeRegressor''"
    by (simp add: dispatch_class_def leaf_regressor_def regression_classes_def)
  moreover have "is_tree [\<lparr>left_child = - 1, right_child = - 1, feature = - 2,
                            threshold = - 2 :: rat\<rparr>]"
    by (rule is_tree_increasing) (simp_all add: child_index_ok_def)
  then have "fitted_tree_state 5 False
      \<lparr>state_nodes = [\<lparr>left_child = - 1, right_child = - 1, feature = - 2, threshold = - 2\<rparr>],
       state_values = [[[1]]]\<rparr>"
    by (simp add: fitted_tree_state_def)
  ultimately show ?thesis
    by (simp add: fitted_estimator_def leaf_regressor_def regression_classes_def)
qed

lemma leaf_regressor_pytree:
  "convert_sklearn_tree_to_tfdf_pytree leaf_regressor =
     Some (Inr (Tree (Some (LeafNode (RegressionValue 1)))))"
  by code_simp

lemma leaf_regressor_build:
  "build_tfdf_model leaf_regressor p fs =
     Some (Inr (TFDFModel (RegressionObjective ''label'')
                  (Tree (Some (LeafNode (RegressionValue 1))))),
           fs(p \<mapsto> Directory (Some (TFDFModel (RegressionObjective ''label'')
                                        (Tree (Some (LeafNode (RegressionValue 1))))))))"
proof -
  have "dispatch_class leaf_regressor = Some ''sklearn.tree._classes.DecisionTreeRegressor''"
    by (simp add: dispatch_class_def leaf_regressor_def regression_classes_def)
  then show ?thesis
    by (simp add: build_tfdf_model_def build_regression_def leaf_regressor_pytree
        load_after_close regression_classes_def)
       (simp add: cart_builder_close_def)
qed

lemma leaf_regressor_prediction:
  "sklearn_predict leaf_regressor x = Some (Inr (RegressionValue 1))"
proof -
  have "sklearn_apply [\<lparr>left_child = - 1, right_child = - 1, feature = - 2, threshold = - 2\<rparr>] x 0
          = Some (Inr 0)"
    by (subst sklearn_apply.simps) (simp add: py_getitem_def)
  then show ?thesis
    by (simp add: sklearn_predict_def leaf_regressor_def sklearn_leaf_value_def py_getitem_def)
qed

text \<open>
  C1. A regressor fitted to a constant target is a fitted single-output estimator
  (\<open>leaf_regressor_fitted\<close>) whose tree is a single leaf, and on every row it
  predicts the value of that leaf (\<open>leaf_regressor_prediction\<close>). The converted
  tree has no split, the inner model's signature names no column, and
  \<^verbatim>\<open>convert\<close> ends with the error of \<^verbatim>\<open>tf.keras.Model\<close> instead of a model:
  there is nothing whose prediction could be compared. For every fitted estimator
  whose root is a split the converted model does predict as the source estimator
  (\<open>split_tree_conversion_preserves_predictions\<close>).
\<close>

theorem single_leaf_conversion_fails:
  "map_option fst (convert leaf_regressor wp tmp fs) = Some (Inl DisconnectedOutputs)"
proof -
  have "n_features_in leaf_regressor = Some 5" by (simp add: leaf_regressor_def)
  then show ?thesis
    by (simp add: convert_def leaf_regressor_build serving_signature_def
          split: option.splits)
qed

end
